theory Spec2Isabelle
  imports Complex_Main
begin

section \<open>The terminal's command-line parser (class TerminalParser)\<close>

text \<open>
  A shallow embedding of the argument parser of \<^verbatim>\<open>src/js/commands/helloworld.js\<close>:
  the tokenizer, the numeric expression evaluator, the schema compiler, the named and
  positional passes and the dispatcher \<^verbatim>\<open>Command.run\<close>. JavaScript strings are
  \<^typ>\<open>string\<close>; a mutated object is passed in and returned; a \<^verbatim>\<open>throw\<close> is the
  \<open>Throw\<close> branch of an outcome.
\<close>

subsection \<open>String primitives of the host language\<close>

definition startsWith :: "string \<Rightarrow> string \<Rightarrow> bool" where
  "startsWith s p \<longleftrightarrow> take (length p) s = p"

text \<open>\<^verbatim>\<open>s.split(c)\<close> for a one-character separator: never empty, \<^verbatim>\<open>"".split(c)\<close> is \<^verbatim>\<open>[""]\<close>.\<close>

fun split :: "char \<Rightarrow> string \<Rightarrow> string list" where
  "split c [] = [[]]"
| "split c (x # xs) =
     (if x = c then [] # split c xs
      else (case split c xs of [] \<Rightarrow> [[x]] | p # ps \<Rightarrow> (x # p) # ps))"

fun join :: "string \<Rightarrow> string list \<Rightarrow> string" where
  "join sep [] = []"
| "join sep [x] = x"
| "join sep (x # y # ys) = x @ sep @ join sep (y # ys)"

subsection \<open>Tokenizer\<close>

text \<open>
  \<^verbatim>\<open>tokenize\<close> keeps three variables over one left-to-right loop: the tokens pushed so
  far, the token being accumulated and the quote character that is open, if any.
\<close>

record tokState =
  tokens :: "string list"
  tempToken :: string
  activeApostrophe :: "char option"

definition apostropheCharacters :: "char list" where
  "apostropheCharacters = [CHR 0x27, CHR 0x22]"

definition spaceCharacters :: "char list" where
  "spaceCharacters = [CHR '' '', CHR 0x09, CHR 0x0A]"

definition tokenizeInit :: tokState where
  "tokenizeInit = \<lparr>tokens = [], tempToken = [], activeApostrophe = None\<rparr>"

definition tokenizeChar :: "tokState \<Rightarrow> char \<Rightarrow> tokState" where
  "tokenizeChar st c =
     (case activeApostrophe st of
        Some q \<Rightarrow>
          (if c = q
           then st\<lparr>tokens := tokens st @ [tempToken st], tempToken := [], activeApostrophe := None\<rparr>
           else st\<lparr>tempToken := tempToken st @ [c]\<rparr>)
      | None \<Rightarrow>
          (if c \<in> set apostropheCharacters then st\<lparr>activeApostrophe := Some c\<rparr>
           else if c \<in> set spaceCharacters
           then (if tempToken st \<noteq> []
                 then st\<lparr>tokens := tokens st @ [tempToken st], tempToken := []\<rparr>
                 else st)
           else st\<lparr>tempToken := tempToken st @ [c]\<rparr>))"

definition tokenizeScan :: "string \<Rightarrow> tokState" where
  "tokenizeScan input = foldl tokenizeChar tokenizeInit input"

definition tokenize :: "string \<Rightarrow> string list" where
  "tokenize input =
     (let st = tokenizeScan input
      in if tempToken st \<noteq> [] then tokens st @ [tempToken st] else tokens st)"

text \<open>\<^verbatim>\<open>extractCommandAndArgs\<close>: the first token (undefined on an empty list) and the rest.\<close>

definition extractCommandAndArgs :: "string list \<Rightarrow> string option \<times> string list" where
  "extractCommandAndArgs toks = (case toks of [] \<Rightarrow> (None, []) | c # args \<Rightarrow> (Some c, args))"

subsection \<open>Numbers\<close>

text \<open>
  A JavaScript number is an IEEE double: a finite value, which is a rational, one of the
  two infinities, or NaN. The model keeps these four kinds and computes on finite values
  exactly: it agrees with the double result whenever that result is representable
  (as for the small integers of the properties below), and it neither rounds nor
  overflows. Negative zero is identified with zero.
\<close>

datatype jsnum = Fin rat | PInf | NInf | NaN

fun num_neg :: "jsnum \<Rightarrow> jsnum" where
  "num_neg (Fin r) = Fin (- r)"
| "num_neg PInf = NInf"
| "num_neg NInf = PInf"
| "num_neg NaN = NaN"

fun num_add :: "jsnum \<Rightarrow> jsnum \<Rightarrow> jsnum" where
  "num_add NaN _ = NaN"
| "num_add _ NaN = NaN"
| "num_add (Fin a) (Fin b) = Fin (a + b)"
| "num_add PInf NInf = NaN"
| "num_add NInf PInf = NaN"
| "num_add PInf _ = PInf"
| "num_add _ PInf = PInf"
| "num_add NInf _ = NInf"
| "num_add _ NInf = NInf"

definition num_sub :: "jsnum \<Rightarrow> jsnum \<Rightarrow> jsnum" where
  "num_sub a b = num_add a (num_neg b)"

text \<open>The sign of a number that is not NaN: \<open>True\<close> for negative.\<close>

fun num_negative :: "jsnum \<Rightarrow> bool" where
  "num_negative (Fin r) = (r < 0)"
| "num_negative NInf = True"
| "num_negative _ = False"

definition num_inf :: "bool \<Rightarrow> jsnum" where
  "num_inf negative = (if negative then NInf else PInf)"

fun num_mul :: "jsnum \<Rightarrow> jsnum \<Rightarrow> jsnum" where
  "num_mul NaN _ = NaN"
| "num_mul _ NaN = NaN"
| "num_mul (Fin a) (Fin b) = Fin (a * b)"
| "num_mul (Fin a) b = (if a = 0 then NaN else num_inf (num_negative (Fin a) \<noteq> num_negative b))"
| "num_mul a (Fin b) = (if b = 0 then NaN else num_inf (num_negative a \<noteq> num_negative (Fin b)))"
| "num_mul a b = num_inf (num_negative a \<noteq> num_negative b)"

fun num_div :: "jsnum \<Rightarrow> jsnum \<Rightarrow> jsnum" where
  "num_div NaN _ = NaN"
| "num_div _ NaN = NaN"
| "num_div (Fin a) (Fin b) =
     (if b \<noteq> 0 then Fin (a / b) else if a = 0 then NaN else num_inf (a < 0))"
| "num_div (Fin a) b = Fin 0"
| "num_div a (Fin b) = num_inf (num_negative a \<noteq> num_negative (Fin b))"
| "num_div a b = NaN"

fun num_lt :: "jsnum \<Rightarrow> jsnum \<Rightarrow> bool" where
  "num_lt NaN _ = False"
| "num_lt _ NaN = False"
| "num_lt (Fin a) (Fin b) = (a < b)"
| "num_lt a PInf = (a \<noteq> PInf)"
| "num_lt NInf b = (b \<noteq> NInf)"
| "num_lt _ _ = False"

definition num_gt :: "jsnum \<Rightarrow> jsnum \<Rightarrow> bool" where
  "num_gt a b = num_lt b a"

definition num_le :: "jsnum \<Rightarrow> jsnum \<Rightarrow> bool" where
  "num_le a b \<longleftrightarrow> a \<noteq> NaN \<and> b \<noteq> NaN \<and> (a = b \<or> num_lt a b)"

definition num_ge :: "jsnum \<Rightarrow> jsnum \<Rightarrow> bool" where
  "num_ge a b = num_le b a"

definition isFinite :: "jsnum \<Rightarrow> bool" where
  "isFinite n = (case n of Fin _ \<Rightarrow> True | _ \<Rightarrow> False)"

definition isNaN :: "jsnum \<Rightarrow> bool" where
  "isNaN n \<longleftrightarrow> n = NaN"

definition isInteger :: "jsnum \<Rightarrow> bool" where
  "isInteger n = (case n of Fin r \<Rightarrow> of_int \<lfloor>r\<rfloor> = r | _ \<Rightarrow> False)"

subsection \<open>The host: built-ins and external collaborators\<close>

text \<open>
  A value thrown by \<^verbatim>\<open>throw\<close> or by the runtime. Every \<^verbatim>\<open>throw\<close> of the file throws an
  Error object: of one of its own classes, a TypeError of the runtime, or any other
  class, given by its name and its message.
\<close>

datatype exn =
    IntendedError string
  | DeveloperError string
  | TypeError string
  | OtherError string string

fun errorName :: "exn \<Rightarrow> string" where
  "errorName (IntendedError _) = ''IntendedError''"
| "errorName (DeveloperError _) = ''DeveloperError''"
| "errorName (TypeError _) = ''TypeError''"
| "errorName (OtherError n _) = n"

fun errorMessage :: "exn \<Rightarrow> string" where
  "errorMessage (IntendedError m) = m"
| "errorMessage (DeveloperError m) = m"
| "errorMessage (TypeError m) = m"
| "errorMessage (OtherError _ m) = m"

datatype 'a outcome = Ret 'a | Throw exn

text \<open>
  The value handed to \<^verbatim>\<open>_parseArgumentValue\<close>: a token, or the literal \<^verbatim>\<open>true\<close> that the
  named pass passes for a boolean flag.
\<close>

datatype inval = Tok string | LitTrue

text \<open>
  What the file takes from outside is a parameter: the \<^verbatim>\<open>Math\<close> functions by member
  name, \<^verbatim>\<open>**\<close> where the exponent is not an integer, \<^verbatim>\<open>parseFloat\<close> and number
  printing outside plain decimals and integers, \<^verbatim>\<open>BigInt\<close> (\<open>None\<close> when it throws),
  and the terminal's two existence predicates, which may throw.
\<close>

record host =
  hMath :: "string \<Rightarrow> jsnum \<Rightarrow> jsnum"
  hPow :: "jsnum \<Rightarrow> jsnum \<Rightarrow> jsnum"
  hParseFloat :: "string \<Rightarrow> jsnum"
  hNumberToString :: "rat \<Rightarrow> string"
  hBigInt :: "inval \<Rightarrow> int option"
  hFileExists :: "inval \<Rightarrow> bool outcome"
  hCommandExists :: "inval \<Rightarrow> bool outcome"

text \<open>\<^verbatim>\<open>a ** b\<close>: exact for a finite base and an integer exponent, the host's otherwise.\<close>

definition num_pow :: "host \<Rightarrow> jsnum \<Rightarrow> jsnum \<Rightarrow> jsnum" where
  "num_pow h a b =
     (case (a, b) of
        (Fin x, Fin y) \<Rightarrow>
          (if of_int \<lfloor>y\<rfloor> = y
           then (if 0 \<le> y then Fin (x ^ nat \<lfloor>y\<rfloor>)
                 else if x = 0 then PInf else Fin (1 / x ^ nat (- \<lfloor>y\<rfloor>)))
           else hPow h a b)
      | _ \<Rightarrow> hPow h a b)"

subsection \<open>Literals\<close>

fun indexOf :: "'a \<Rightarrow> 'a list \<Rightarrow> nat" where
  "indexOf c [] = 0"
| "indexOf c (x # xs) = (if x = c then 0 else Suc (indexOf c xs))"

definition allIn :: "string \<Rightarrow> string \<Rightarrow> bool" where
  "allIn alphabet s \<longleftrightarrow> s \<noteq> [] \<and> (\<forall>c \<in> set s. c \<in> set alphabet)"

text \<open>\<^verbatim>\<open>parseInt(s, radix)\<close> on a string of digits of that radix.\<close>

definition parseInt :: "nat \<Rightarrow> string \<Rightarrow> nat" where
  "parseInt radix s = foldl (\<lambda>acc c. acc * radix + indexOf c ''0123456789abcdef'') 0 s"

definition intRegex :: "string \<Rightarrow> bool" where
  "intRegex s = allIn ''0123456789'' s"

text \<open>\<open>digits.digits\<close> over an alphabet that has no dot: exactly two parts around one dot.\<close>

definition dotted :: "string \<Rightarrow> string \<Rightarrow> bool" where
  "dotted alphabet s =
     (case split (CHR ''.'') s of [a, b] \<Rightarrow> allIn alphabet a \<and> allIn alphabet b | _ \<Rightarrow> False)"

definition decimalRegex :: "string \<Rightarrow> bool" where
  "decimalRegex s = dotted ''0123456789'' s"

definition hexIntRegex :: "string \<Rightarrow> bool" where
  "hexIntRegex s \<longleftrightarrow> startsWith s ''0x'' \<and> allIn ''0123456789abcdef'' (drop 2 s)"

definition hexDecimalRegex :: "string \<Rightarrow> bool" where
  "hexDecimalRegex s \<longleftrightarrow> startsWith s ''0x'' \<and> dotted ''0123456789abcdef'' (drop 2 s)"

definition binIntRegex :: "string \<Rightarrow> bool" where
  "binIntRegex s \<longleftrightarrow> startsWith s ''0b'' \<and> allIn ''01'' (drop 2 s)"

definition binDecimalRegex :: "string \<Rightarrow> bool" where
  "binDecimalRegex s \<longleftrightarrow> startsWith s ''0b'' \<and> dotted ''01'' (drop 2 s)"

text \<open>The pattern \<^verbatim>\<open>-?[0-9]+(\.[0-9]+)?\<close> of a plain decimal, and its value.\<close>

definition plainDecimal :: "string \<Rightarrow> bool" where
  "plainDecimal s =
     (let u = (if startsWith s ''-'' then drop 1 s else s) in intRegex u \<or> decimalRegex u)"

definition unsignedDecimal :: "string \<Rightarrow> rat" where
  "unsignedDecimal u =
     (case split (CHR ''.'') u of
        [a, b] \<Rightarrow> of_nat (parseInt 10 a) + of_nat (parseInt 10 b) / 10 ^ length b
      | _ \<Rightarrow> of_nat (parseInt 10 u))"

definition parseFloat :: "host \<Rightarrow> string \<Rightarrow> jsnum" where
  "parseFloat h s =
     (if plainDecimal s
      then (if startsWith s ''-'' then Fin (- unsignedDecimal (drop 1 s))
            else Fin (unsignedDecimal s))
      else hParseFloat h s)"

definition scientificRegex :: "string \<Rightarrow> bool" where
  "scientificRegex s =
     (case split (CHR ''e'') s of [m, ex] \<Rightarrow> plainDecimal m \<and> intRegex ex | _ \<Rightarrow> False)"

text \<open>The two halves around the dot of a binary or hexadecimal fraction.\<close>

definition radixDecimal :: "nat \<Rightarrow> string \<Rightarrow> jsnum" where
  "radixDecimal radix s =
     (case split (CHR ''.'') s of
        before # after # _ \<Rightarrow>
          Fin (of_nat (parseInt radix (drop 2 before))
               + of_nat (parseInt radix after) / of_nat radix ^ length after)
      | _ \<Rightarrow> NaN)"

definition scientific :: "host \<Rightarrow> string \<Rightarrow> jsnum" where
  "scientific h s =
     (case split (CHR ''e'') s of
        decimal # exponent # _ \<Rightarrow>
          num_mul (parseFloat h decimal)
                  (num_pow h (Fin 10) (Fin (of_nat (parseInt 10 exponent))))
      | _ \<Rightarrow> NaN)"

subsection \<open>Numeric expression evaluator\<close>

definition atProperty :: "string \<Rightarrow> string \<Rightarrow> string" where
  \<open>atProperty nm txt = ''At property "'' @ nm @ ''": '' @ txt\<close>

definition constants :: "host \<Rightarrow> (string \<times> jsnum) list" where
  "constants h =
     [(''pi'', Fin (884279719003555 / 281474976710656)),
      (''tau'', num_mul (Fin 2) (Fin (884279719003555 / 281474976710656))),
      (''phi'', num_div (num_add (Fin 1) (hMath h ''sqrt'' (Fin 5))) (Fin 2)),
      (''e'', Fin (6121026514868073 / 2251799813685248))]"

text \<open>
  An entry of \<^verbatim>\<open>allowedFunctions\<close>: the prefix, \<^verbatim>\<open>compute\<close>, and the constraints, each a
  predicate with the text of its error.
\<close>

type_synonym allowedFunction =
  "string \<times> (host \<Rightarrow> jsnum \<Rightarrow> jsnum) \<times> ((jsnum \<Rightarrow> bool) \<times> string) list"

definition allowedFunctions :: "allowedFunction list" where
  "allowedFunctions =
     [(''sqrt'', (\<lambda>h. hMath h ''sqrt''),
         [(\<lambda>n. num_lt n (Fin 0), ''sqrt is only defined on [0, inf)'')]),
      (''sin'', (\<lambda>h. hMath h ''sin''), []),
      (''cos'', (\<lambda>h. hMath h ''cos''), []),
      (''tan'', (\<lambda>h. hMath h ''tan''), []),
      (''arcsin'', (\<lambda>h. hMath h ''asin''),
         [(\<lambda>n. num_lt n (Fin (- 1)) \<or> num_gt n (Fin 1), ''arcsin is only defined on [-1, 1]'')]),
      (''arccos'', (\<lambda>h. hMath h ''acos''),
         [(\<lambda>n. num_lt n (Fin (- 1)) \<or> num_gt n (Fin 1), ''arccos is only defined on [-1, 1]'')]),
      (''arctan'', (\<lambda>h. hMath h ''atan''), []),
      (''sinh'', (\<lambda>h. hMath h ''sinh''), []),
      (''cosh'', (\<lambda>h. hMath h ''cosh''), []),
      (''tanh'', (\<lambda>h. hMath h ''tanh''), []),
      (''arcsinh'', (\<lambda>h. hMath h ''asinh''), []),
      (''arccosh'', (\<lambda>h. hMath h ''acosh''),
         [(\<lambda>n. num_lt n (Fin 1), ''arccosh is only defined on [1, inf)'')]),
      (''arctanh'', (\<lambda>h. hMath h ''atanh''),
         [(\<lambda>n. num_le n (Fin (- 1)) \<or> num_ge n (Fin 1), ''arctanh is only defined on (-1, 1)'')]),
      ([], (\<lambda>h n. n), [])]"

text \<open>\<^verbatim>\<open>numberString.slice(functionStr.length + 1, -1)\<close>.\<close>

definition numberPart :: "string \<Rightarrow> string \<Rightarrow> string" where
  "numberPart functionStr s = drop (length functionStr + 1) (butlast s)"

text \<open>
  The bracket check of a function-prefix match: true when the count of open brackets
  goes below zero somewhere in the argument, so that this entry is skipped.
\<close>

fun abortThisExecution :: "int \<Rightarrow> string \<Rightarrow> bool" where
  "abortThisExecution openCount [] = False"
| "abortThisExecution openCount (c # cs) =
     (let n = (if c = CHR ''('' then openCount + 1
               else if c = CHR '')'' then openCount - 1 else openCount)
      in if n < 0 then True else abortThisExecution n cs)"

text \<open>The loop over \<^verbatim>\<open>allowedFunctions\<close>: the first entry that matches and is not skipped.\<close>

fun findFunction :: "allowedFunction list \<Rightarrow> string \<Rightarrow> allowedFunction option" where
  "findFunction [] s = None"
| "findFunction (f # fs) s =
     (if startsWith s (fst f @ ''('') \<and> \<not> abortThisExecution 0 (numberPart (fst f) s)
      then Some f else findFunction fs s)"

fun firstViolated :: "((jsnum \<Rightarrow> bool) \<times> string) list \<Rightarrow> jsnum \<Rightarrow> string option" where
  "firstViolated [] v = None"
| "firstViolated (c # cs) v = (if fst c v then Some (snd c) else firstViolated cs v)"

text \<open>
  One pass of the operator loop over the characters from index \<open>i\<close> on: \<open>Unbalanced\<close>
  when the level goes below zero or ends above it, otherwise \<^verbatim>\<open>foundSplitIndex\<close>, which
  every later match at level 0 overwrites.
\<close>

datatype scan = Unbalanced | Scanned "nat option"

fun scanOperator :: "char \<Rightarrow> string \<Rightarrow> nat \<Rightarrow> int \<Rightarrow> nat option \<Rightarrow> scan" where
  "scanOperator operatorName [] i currLevel foundSplitIndex =
     (if currLevel \<noteq> 0 then Unbalanced else Scanned foundSplitIndex)"
| "scanOperator operatorName (c # cs) i currLevel foundSplitIndex =
     (let l1 = (if c = CHR ''('' then currLevel + 1 else currLevel);
          l2 = (if c = CHR '')'' then l1 - 1 else l1)
      in if l2 < 0 then Unbalanced
         else scanOperator operatorName cs (Suc i) l2
                (if c = operatorName \<and> l2 = 0 then Some i else foundSplitIndex))"

text \<open>The operators "in list of anti-precedence".\<close>

type_synonym operator = "char \<times> (jsnum \<Rightarrow> jsnum \<Rightarrow> jsnum)"

definition operators :: "host \<Rightarrow> operator list" where
  "operators h =
     [(CHR ''+'', num_add), (CHR ''-'', num_sub), (CHR ''*'', num_mul),
      (CHR ''/'', num_div), (CHR ''^'', num_pow h)]"

datatype splitting = SplitUnbalanced | NoSplit | SplitAt operator nat

fun findSplit :: "operator list \<Rightarrow> string \<Rightarrow> splitting" where
  "findSplit [] s = NoSplit"
| "findSplit (opr # oprs) s =
     (case scanOperator (fst opr) s 0 0 None of
        Unbalanced \<Rightarrow> SplitUnbalanced
      | Scanned None \<Rightarrow> findSplit oprs s
      | Scanned (Some k) \<Rightarrow> SplitAt opr k)"

lemma scanOperator_bound:
  "scanOperator operatorName s i lvl found = Scanned (Some k) \<Longrightarrow>
   (\<forall>j. found = Some j \<longrightarrow> j < i) \<Longrightarrow> k < i + length s"
proof (induction s arbitrary: i lvl found)
  case Nil
  then show ?case by (auto split: if_splits)
next
  case (Cons c cs)
  then show ?case
    by (fastforce simp: Let_def split: if_splits)
qed

lemma findSplit_bound: "findSplit oprs s = SplitAt opr k \<Longrightarrow> k < length s"
proof (induction oprs)
  case Nil
  then show ?case by simp
next
  case (Cons a oprs)
  then show ?case
    using scanOperator_bound [of "fst a" s 0 0 None k]
    by (auto split: scan.splits option.splits)
qed

lemma findFunction_nonempty: "findFunction fs s = Some f \<Longrightarrow> s \<noteq> []"
  by (induction fs) (auto simp: startsWith_def split: if_splits)

lemma numberPart_shorter: "s \<noteq> [] \<Longrightarrow> length (numberPart f s) < length s"
  by (cases s rule: rev_cases) (auto simp: numberPart_def)

text \<open>
  \<^verbatim>\<open>_parseNumber\<close> on a string. \<open>Inl\<close> is the sentinel \<^verbatim>\<open>ParserError\<close> returned by the
  \<^verbatim>\<open>error\<close> callback, with the message the callback was given: every sentinel is
  returned at once by every caller, so the callback runs at most once per call.
\<close>

function parseNumber :: "host \<Rightarrow> string \<Rightarrow> string \<Rightarrow> string + jsnum" where
  "parseNumber h nm s =
     (case map_of (constants h) s of
        Some v \<Rightarrow> Inr v
      | None \<Rightarrow>
          if s = ''inf'' then Inl (atProperty nm ''Infinity is not a number'')
          else if startsWith s ''-'' then
            (case parseNumber h nm (drop 1 s) of
               Inl e \<Rightarrow> Inl e
             | Inr v \<Rightarrow> Inr (num_neg v))
          else
            (case findFunction allowedFunctions s of
               Some f \<Rightarrow>
                 (case parseNumber h nm (numberPart (fst f) s) of
                    Inl e \<Rightarrow> Inl e
                  | Inr v \<Rightarrow>
                      (case firstViolated (snd (snd f)) v of
                         Some msg \<Rightarrow> Inl (atProperty nm msg)
                       | None \<Rightarrow> Inr (fst (snd f) h v)))
             | None \<Rightarrow>
                 if intRegex s then Inr (Fin (of_nat (parseInt 10 s)))
                 else if hexIntRegex s then Inr (Fin (of_nat (parseInt 16 (drop 2 s))))
                 else if binIntRegex s then Inr (Fin (of_nat (parseInt 2 (drop 2 s))))
                 else if decimalRegex s then Inr (parseFloat h s)
                 else if binDecimalRegex s then Inr (radixDecimal 2 s)
                 else if hexDecimalRegex s then Inr (radixDecimal 16 s)
                 else if scientificRegex s then Inr (scientific h s)
                 else
                   (case findSplit (operators h) s of
                      SplitUnbalanced \<Rightarrow> Inl (atProperty nm ''Unbalanced parentheses'')
                    | NoSplit \<Rightarrow> Inl (atProperty nm ''Invalid number'')
                    | SplitAt opr k \<Rightarrow>
                        (case parseNumber h nm (take k s) of
                           Inl e \<Rightarrow> Inl e
                         | Inr a \<Rightarrow>
                             (case parseNumber h nm (drop (Suc k) s) of
                                Inl e \<Rightarrow> Inl e
                              | Inr b \<Rightarrow>
                                  if b = Fin 0 \<and> fst opr = CHR ''/''
                                  then Inl (atProperty nm ''Can't divide by zero'')
                                  else Inr (snd opr a b))))))"
  by pat_completeness auto
termination
proof (relation "measure (\<lambda>(h, nm, s). length s)")
  show "wf (measure (\<lambda>(h, nm, s). length s))" by simp
next
  fix h :: host and nm s :: string
  assume "startsWith s ''-''"
  then show "((h, nm, drop 1 s), (h, nm, s)) \<in> measure (\<lambda>(h, nm, s). length s)"
    by (cases s) (auto simp: startsWith_def)
next
  fix h :: host and nm s :: string and f :: allowedFunction
  assume "findFunction allowedFunctions s = Some f"
  then show "((h, nm, numberPart (fst f) s), (h, nm, s)) \<in> measure (\<lambda>(h, nm, s). length s)"
    using findFunction_nonempty numberPart_shorter by auto
next
  fix h :: host and nm s :: string and opr :: operator and k :: nat
  assume "findSplit (operators h) s = SplitAt opr k"
  then have "k < length s" by (rule findSplit_bound)
  then show "((h, nm, take k s), (h, nm, s)) \<in> measure (\<lambda>(h, nm, s). length s)"
    by simp
next
  fix h :: host and nm s :: string and opr :: operator and k :: nat
  assume "findSplit (operators h) s = SplitAt opr k"
  then have "k < length s" by (rule findSplit_bound)
  then show "((h, nm, drop (Suc k) s), (h, nm, s)) \<in> measure (\<lambda>(h, nm, s). length s)"
    by simp
qed

declare parseNumber.simps [simp del]




subsection \<open>Values and their conversions\<close>

text \<open>A value stored in an option: \<^verbatim>\<open>undefined\<close>, a string, a boolean, a number, a BigInt or an array.\<close>

datatype jsval = Undefined | Str string | Bool bool | Num jsnum | BigInt int | Arr "jsval list"

function showNat :: "nat \<Rightarrow> string" where
  "showNat n =
     (if n < 10 then [''0123456789'' ! n]
      else showNat (n div 10) @ [''0123456789'' ! (n mod 10)])"
  by pat_completeness auto
termination
  by (relation "measure id") auto

declare showNat.simps [simp del]

definition showInt :: "int \<Rightarrow> string" where
  "showInt i = (if i < 0 then ''-'' @ showNat (nat (- i)) else showNat (nat i))"

text \<open>
  A number in a template string or a concatenation: plain digits for an integer below
  \<open>10\<^sup>2\<^sup>1\<close>, the host's shortest decimal otherwise.
\<close>

definition numberToString :: "host \<Rightarrow> jsnum \<Rightarrow> string" where
  "numberToString h n =
     (case n of
        Fin r \<Rightarrow>
          (if of_int \<lfloor>r\<rfloor> = r \<and> \<bar>r\<bar> < 10 ^ 21 then showInt \<lfloor>r\<rfloor> else hNumberToString h r)
      | PInf \<Rightarrow> ''Infinity''
      | NInf \<Rightarrow> ''-Infinity''
      | NaN \<Rightarrow> ''NaN'')"

text \<open>String conversion; inside an array \<^verbatim>\<open>undefined\<close> prints as the empty string.\<close>

fun toStr :: "host \<Rightarrow> bool \<Rightarrow> jsval \<Rightarrow> string" where
  "toStr h inArray Undefined = (if inArray then [] else ''undefined'')"
| "toStr h inArray (Str s) = s"
| "toStr h inArray (Bool b) = (if b then ''true'' else ''false'')"
| "toStr h inArray (Num n) = numberToString h n"
| "toStr h inArray (BigInt i) = showInt i"
| "toStr h inArray (Arr xs) = join '','' (map (toStr h True) xs)"

fun truthy :: "jsval \<Rightarrow> bool" where
  "truthy Undefined = False"
| "truthy (Str s) = (s \<noteq> [])"
| "truthy (Bool b) = b"
| "truthy (Num n) = (n \<noteq> Fin 0 \<and> n \<noteq> NaN)"
| "truthy (BigInt i) = (i \<noteq> 0)"
| "truthy (Arr xs) = True"

fun valueOf :: "inval \<Rightarrow> jsval" where
  "valueOf (Tok s) = Str s"
| "valueOf LitTrue = Bool True"

fun stringOf :: "inval \<Rightarrow> string" where
  "stringOf (Tok s) = s"
| "stringOf LitTrue = ''true''"

subsection \<open>Argument options and the schema compiler\<close>

text \<open>
  The field \<^verbatim>\<open>type\<close> takes one of nine strings: \<^verbatim>\<open>"string"\<close>, \<^verbatim>\<open>"number"\<close>, \<^verbatim>\<open>"bigint"\<close>,
  \<^verbatim>\<open>"boolean"\<close>, \<^verbatim>\<open>"file"\<close>, \<^verbatim>\<open>"command"\<close>, \<^verbatim>\<open>"square-matrix"\<close>, \<^verbatim>\<open>"matrix"\<close> and \<^verbatim>\<open>"enum"\<close>.
\<close>

datatype argType =
  TString | TNumber | TBigint | TBoolean | TFile | TCommand | TSquareMatrix | TMatrix | TEnum

text \<open>
  The object built by \<^verbatim>\<open>parseArgOptions\<close>. The fields \<^verbatim>\<open>type\<close>, \<^verbatim>\<open>min\<close>, \<^verbatim>\<open>max\<close>,
  \<^verbatim>\<open>default\<close>, \<^verbatim>\<open>value\<close> and \<^verbatim>\<open>_hasExpanded\<close> are \<open>argType\<close>, \<open>minimum\<close>, \<open>maximum\<close>,
  \<open>defaultValue\<close>, \<open>argValue\<close> and \<open>hasExpanded\<close>; \<^verbatim>\<open>error\<close>, which nothing reads, is left out.
\<close>

record argOption =
  name :: string
  argType :: argType
  typeName :: string
  stringType :: "string option"
  optional :: bool
  minimum :: "jsnum option"
  maximum :: "jsnum option"
  expanding :: bool
  numtype :: "string option"
  defaultValue :: jsval
  forms :: "string list"
  isHelp :: bool
  description :: string
  enumOptions :: "string list option"
  tokenIndex :: "nat option"
  tokenSpan :: nat
  argValue :: jsval
  isManuallySetValue :: bool
  hasExpanded :: bool

definition initialArgOptions :: argOption where
  "initialArgOptions =
     \<lparr>name = [], argType = TString, typeName = ''string'', stringType = None,
      optional = False, minimum = None, maximum = None, expanding = False, numtype = None,
      defaultValue = Undefined, forms = [], isHelp = False, description = [],
      enumOptions = None, tokenIndex = None, tokenSpan = 0, argValue = Undefined,
      isManuallySetValue = False, hasExpanded = False\<rparr>"

text \<open>The chain of comparisons on the type code; \<open>None\<close> is the final \<^verbatim>\<open>else\<close>, which throws.\<close>

definition applyTypeCode :: "string \<Rightarrow> argOption \<Rightarrow> argOption option" where
  "applyTypeCode t a =
     (if t = ''n'' then Some (a\<lparr>argType := TNumber, typeName := ''number''\<rparr>)
      else if t = ''i'' then
        Some (a\<lparr>argType := TNumber, typeName := ''integer'', numtype := Some ''integer''\<rparr>)
      else if t = ''bn'' then Some (a\<lparr>argType := TBigint, typeName := ''integer''\<rparr>)
      else if t = ''b'' then Some (a\<lparr>argType := TBoolean, typeName := ''boolean''\<rparr>)
      else if t = ''s'' then Some (a\<lparr>argType := TString, typeName := ''string''\<rparr>)
      else if t = ''f'' then Some (a\<lparr>argType := TFile, typeName := ''file''\<rparr>)
      else if t = ''c'' then Some (a\<lparr>argType := TCommand, typeName := ''command''\<rparr>)
      else if t = ''sm'' then Some (a\<lparr>argType := TSquareMatrix, typeName := ''square-matrix''\<rparr>)
      else if t = ''m'' then Some (a\<lparr>argType := TMatrix, typeName := ''matrix''\<rparr>)
      else if t = ''e'' then Some (a\<lparr>argType := TEnum, typeName := ''enum''\<rparr>)
      else if t = ''t'' then
        Some (a\<lparr>argType := TString, typeName := ''string'', stringType := Some ''text''\<rparr>)
      else None)"

text \<open>The third part of the spec string: a range for a number, the options of an enum.\<close>

definition applyConstraint :: "host \<Rightarrow> string list \<Rightarrow> argOption \<Rightarrow> argOption" where
  "applyConstraint h parts a =
     (if length parts > 2 then
        (if argType a = TNumber then
           (let range = parts ! 2 in
            if CHR ''~'' \<in> set range then
              (let rangeParts = split (CHR ''~'') range
               in a\<lparr>minimum := Some (parseFloat h (rangeParts ! 0)),
                     maximum := Some (parseFloat h (rangeParts ! 1))\<rparr>)
            else a\<lparr>minimum := Some (parseFloat h range), maximum := Some (parseFloat h range)\<rparr>)
         else if argType a = TEnum then a\<lparr>enumOptions := Some (split (CHR ''|'') (parts ! 2))\<rparr>
         else a)
      else a)"

text \<open>The end of \<^verbatim>\<open>parseArgOptions\<close>: the name, its forms and the help flag.\<close>

definition finishArgOptions :: "string \<Rightarrow> argOption \<Rightarrow> argOption" where
  "finishArgOptions nm a =
     (let a1 = a\<lparr>name := nm, forms := [nm], description := [], tokenIndex := None,
                 tokenSpan := 0, argValue := Undefined, isManuallySetValue := False\<rparr>;
          a2 = (if CHR ''='' \<in> set (name a1)
                then (let fs = split (CHR ''='') (name a1) in a1\<lparr>forms := fs, name := fs ! 1\<rparr>)
                else a1)
      in if name a2 = ''help'' \<or> name a2 = ''h'' then a2\<lparr>isHelp := True\<rparr> else a2)"

text \<open>The spec string without its \<^verbatim>\<open>?\<close> and \<^verbatim>\<open>*\<close> prefixes, and the two flags they set.\<close>

definition stripPrefixes :: "string \<Rightarrow> bool \<times> bool \<times> string" where
  "stripPrefixes argString =
     (let opt = startsWith argString ''?'';
          n1 = (if opt then drop 1 argString else argString);
          ex = startsWith n1 ''*'';
          n2 = (if ex then drop 1 n1 else n1)
      in (opt, ex, n2))"

definition parseArgOptions :: "host \<Rightarrow> string \<Rightarrow> argOption outcome" where
  "parseArgOptions h argString =
     (case stripPrefixes argString of
        (opt, ex, nm) \<Rightarrow>
          (let a = initialArgOptions\<lparr>optional := opt, expanding := ex\<rparr> in
           if CHR '':'' \<in> set nm then
             (let parts = split (CHR '':'') nm; t = parts ! 1 in
              case applyTypeCode t a of
                None \<Rightarrow> Throw (DeveloperError (''Invalid argument type: '' @ t))
              | Some a' \<Rightarrow> Ret (finishArgOptions (parts ! 0) (applyConstraint h parts a')))
           else Ret (finishArgOptions nm a)))"

text \<open>\<^verbatim>\<open>getArgOption\<close>: the position of the first option with that name or form.\<close>

fun getArgOption :: "argOption list \<Rightarrow> string \<Rightarrow> nat option" where
  "getArgOption [] argName = None"
| "getArgOption (a # as) argName =
     (if name a = argName \<or> argName \<in> set (forms a) then Some 0
      else map_option Suc (getArgOption as argName))"

subsection \<open>Setting one value\<close>

record parsingError =
  message :: "string option"
  errTokenIndex :: "nat option"
  errTokenSpan :: nat

text \<open>\<^verbatim>\<open>if (parsingError.message)\<close>: a message that is neither undefined nor empty.\<close>

definition hasMessage :: "parsingError \<Rightarrow> bool" where
  "hasMessage err = (case message err of None \<Rightarrow> False | Some m \<Rightarrow> m \<noteq> [])"

text \<open>The closure \<^verbatim>\<open>error\<close> of \<^verbatim>\<open>_parseArgumentValue\<close>.\<close>

definition raiseError :: "argOption \<Rightarrow> string \<Rightarrow> parsingError" where
  "raiseError a msg =
     \<lparr>message = Some msg, errTokenIndex = tokenIndex a, errTokenSpan = tokenSpan a\<rparr>"

definition addVal :: "host \<Rightarrow> argOption \<Rightarrow> jsval \<Rightarrow> argOption" where
  "addVal h a v =
     a\<lparr>argValue := (if expanding a \<and> truthy (argValue a)
                     then Str (toStr h False (argValue a) @ '' '' @ toStr h False v) else v),
       isManuallySetValue := True\<rparr>"

text \<open>
  \<^verbatim>\<open>_parseNumber\<close> as it is called: on a token it evaluates; on the literal \<^verbatim>\<open>true\<close> no
  comparison with a constant holds and \<^verbatim>\<open>numberString.startsWith\<close> is not a function.
\<close>

definition parseNumberArg :: "host \<Rightarrow> string \<Rightarrow> inval \<Rightarrow> (string + jsnum) outcome" where
  "parseNumberArg h nm v =
     (case v of
        Tok s \<Rightarrow> Ret (parseNumber h nm s)
      | LitTrue \<Rightarrow> Throw (TypeError ''numberString.startsWith is not a function''))"

text \<open>
  The matrix pattern: a bracketed list of rows separated by \<^verbatim>\<open>/\<close>, each a list of cells
  separated by commas, each cell a plain decimal or one lower-case letter. No cell
  contains a separator, so the pattern matches exactly when every cell of the split does.
\<close>

definition matrixCell :: "string \<Rightarrow> bool" where
  "matrixCell c \<longleftrightarrow>
     plainDecimal c \<or> (length c = 1 \<and> set c \<subseteq> set ''abcdefghijklmnopqrstuvwxyz'')"

definition matrixRows :: "string \<Rightarrow> string list list" where
  "matrixRows s = map (split (CHR '','')) (split (CHR ''/'') (butlast (drop 1 s)))"

definition matrixRegex :: "string \<Rightarrow> bool" where
  "matrixRegex s \<longleftrightarrow>
     2 \<le> length s \<and> hd s = CHR ''['' \<and> last s = CHR '']'' \<and>
     (\<forall>row \<in> set (matrixRows s). \<forall>c \<in> set row. matrixCell c)"

definition matrixValue :: "host \<Rightarrow> string \<Rightarrow> jsval list list" where
  "matrixValue h s =
     map (map (\<lambda>c. if plainDecimal c then Num (parseFloat h c) else Str c)) (matrixRows s)"

text \<open>
  The two range checks of a number, in order: \<open>Inl\<close> the minimum it is below, \<open>Inr\<close> the
  maximum it is above. A bound that is \<^verbatim>\<open>null\<close> is not checked.
\<close>

definition outOfRange :: "argOption \<Rightarrow> jsnum \<Rightarrow> (jsnum + jsnum) option" where
  "outOfRange a num =
     (case minimum a of
        Some m \<Rightarrow>
          if num_lt num m then Some (Inl m)
          else (case maximum a of
                  Some x \<Rightarrow> if num_gt num x then Some (Inr x) else None
                | None \<Rightarrow> None)
      | None \<Rightarrow>
          (case maximum a of
             Some x \<Rightarrow> if num_gt num x then Some (Inr x) else None
           | None \<Rightarrow> None))"

definition parseArgumentValue ::
  "host \<Rightarrow> argOption \<Rightarrow> inval \<Rightarrow> parsingError \<Rightarrow> (argOption \<times> parsingError) outcome" where
  \<open>parseArgumentValue h a v err =
     (case argType a of
        TNumber \<Rightarrow>
          (case parseNumberArg h (name a) v of
             Throw e \<Rightarrow> Throw e
           | Ret (Inl msg) \<Rightarrow> Ret (a, raiseError a msg)
           | Ret (Inr num) \<Rightarrow>
               if \<not> isFinite num
               then Ret (a, raiseError a (atProperty (name a) ''Infinity isn't a number''))
               else if isNaN num
               then Ret (a, raiseError a (atProperty (name a) ''Not a number''))
               else if numtype a = Some ''integer'' \<and> \<not> isInteger num
               then Ret (a, raiseError a (atProperty (name a) ''Expected an integer''))
               else
                 (case outOfRange a num of
                    Some (Inl m) \<Rightarrow>
                      Ret (a, raiseError a (atProperty (name a)
                             (''Number must be at least '' @ numberToString h m)))
                  | Some (Inr m) \<Rightarrow>
                      Ret (a, raiseError a (atProperty (name a)
                             (''Number must be at most '' @ numberToString h m)))
                  | None \<Rightarrow> Ret (addVal h a (Num num), err)))
      | TBoolean \<Rightarrow>
          if v \<notin> set [Tok ''true'', LitTrue, Tok ''1'', Tok ''false'', Tok ''0'']
          then Ret (a, raiseError a (atProperty (name a) ''Expected a boolean''))
          else Ret (addVal h a (Bool (v \<in> set [Tok ''true'', LitTrue, Tok ''1''])), err)
      | TBigint \<Rightarrow>
          (case hBigInt h v of
             Some i \<Rightarrow> Ret (addVal h a (BigInt i), err)
           | None \<Rightarrow> Ret (a, raiseError a (atProperty (name a) ''Expected an integer'')))
      | TFile \<Rightarrow>
          (case hFileExists h v of
             Throw e \<Rightarrow> Throw e
           | Ret found \<Rightarrow>
               if \<not> found then Ret (a, raiseError a (''File not found: "'' @ stringOf v @ ''"''))
               else Ret (addVal h a (valueOf v), err))
      | TCommand \<Rightarrow>
          (case hCommandExists h v of
             Throw e \<Rightarrow> Throw e
           | Ret found \<Rightarrow>
               if \<not> found then Ret (a, raiseError a (''Command not found: "'' @ stringOf v @ ''"''))
               else Ret (addVal h a (valueOf v), err))
      | TEnum \<Rightarrow>
          (case enumOptions a of
             None \<Rightarrow> Throw (TypeError ''Cannot read properties of undefined (reading 'includes')'')
           | Some options \<Rightarrow>
               if v \<notin> Tok ` set options
               then Ret (a, raiseError a (''Invalid Option: "'' @ stringOf v @ ''"''))
               else Ret (addVal h a (valueOf v), err))
      | TString \<Rightarrow> Ret (addVal h a (valueOf v), err)
      | _ \<Rightarrow>
          if \<not> matrixRegex (stringOf v)
          then Ret (a, raiseError a ''Invalid matrix. Use syntax: [1,2/a,4]'')
          else
            (let rows = matrixValue h (stringOf v) in
             if \<exists>row \<in> set rows. length row \<noteq> length (rows ! 0)
             then Ret (a, raiseError a ''Matrix must have equal sized rows.'')
             else if argType a = TSquareMatrix \<and> length rows \<noteq> length (rows ! 0)
             then Ret (a, raiseError a ''Matrix must be square.'')
             else Ret (addVal h a (Arr (map Arr rows)), err)))\<close>

subsection \<open>The named-argument pass\<close>

text \<open>The flag pattern \<^verbatim>\<open>/^--?[a-zA-Z][a-zA-Z0-9:_\-:.]*$/\<close>.\<close>

definition letters :: string where
  "letters = ''abcdefghijklmnopqrstuvwxyzABCDEFGHIJKLMNOPQRSTUVWXYZ''"

definition flagRegex :: "string \<Rightarrow> bool" where
  "flagRegex s =
     (case s of
        d # rest \<Rightarrow>
          d = CHR ''-'' \<and>
          (case (if startsWith rest ''-'' then drop 1 rest else rest) of
             c # cs \<Rightarrow> c \<in> set letters \<and> set cs \<subseteq> set (letters @ ''0123456789:_-.'')
           | [] \<Rightarrow> False)
      | [] \<Rightarrow> False)"

text \<open>\<^verbatim>\<open>tokens[i + 1]\<close> where \<^verbatim>\<open>if (nextToken)\<close> holds: defined and not the empty string.\<close>

definition nextToken :: "string list \<Rightarrow> nat \<Rightarrow> string option" where
  "nextToken toks i =
     (if Suc i < length toks \<and> toks ! Suc i \<noteq> [] then Some (toks ! Suc i) else None)"

text \<open>
  The state the pass works on: the options, the parsing error and the flag
  \<^verbatim>\<open>deleteNext\<close> of the current token. \<^verbatim>\<open>handleArg\<close> is the closure of the loop body.
\<close>

type_synonym named = "argOption list \<times> parsingError \<times> bool"

definition handleArg :: "host \<Rightarrow> string list \<Rightarrow> nat \<Rightarrow> string \<Rightarrow> named \<Rightarrow> named outcome" where
  \<open>handleArg h toks i argName st =
     (case st of
        (opts, err, deleteNext) \<Rightarrow>
          (case getArgOption opts argName of
             None \<Rightarrow>
               Ret (opts,
                    err\<lparr>message := Some (''Unexpected property "'' @ argName @ ''"''),
                        errTokenIndex := Some i\<rparr>,
                    deleteNext)
           | Some k \<Rightarrow>
               (let a = opts ! k in
                if \<not> optional a then
                  Ret (opts[k := a\<lparr>tokenIndex := Some i\<rparr>],
                       err\<lparr>message := Some (''Property "'' @ name a
                                               @ ''" is not optional, must be passed directly''),
                           errTokenIndex := Some i, errTokenSpan := 1\<rparr>,
                       deleteNext)
                else if argType a = TBoolean then
                  (case parseArgumentValue h (a\<lparr>tokenIndex := Some i\<rparr>) LitTrue err of
                     Throw e \<Rightarrow> Throw e
                   | Ret (a', err') \<Rightarrow> Ret (opts[k := a'], err', False))
                else
                  (case nextToken toks i of
                     Some t \<Rightarrow>
                       (case parseArgumentValue h (a\<lparr>tokenIndex := Some i, tokenSpan := 1\<rparr>)
                               (Tok t) err of
                          Throw e \<Rightarrow> Throw e
                        | Ret (a', err') \<Rightarrow> Ret (opts[k := a'], err', deleteNext))
                   | None \<Rightarrow>
                       Ret (opts,
                            err\<lparr>message := Some (''property "'' @ name a @ ''" ('' @ typeName a
                                                    @ '') expects a value''),
                                errTokenIndex := Some (i + 1)\<rparr>,
                            deleteNext)))))\<close>

text \<open>
  The loop over the characters of a clustered token, from the current character on;
  the last character is the one with nothing after it. The result says whether the loop
  left \<^verbatim>\<open>parseNamedArgs\<close> with \<^verbatim>\<open>return null\<close>.
\<close>

fun clusterLoop :: "host \<Rightarrow> string list \<Rightarrow> nat \<Rightarrow> string \<Rightarrow> named \<Rightarrow> (named \<times> bool) outcome" where
  "clusterLoop h toks i [] st = Ret (st, False)"
| \<open>clusterLoop h toks i (c # cs) st =
     (case st of
        (opts, err, deleteNext) \<Rightarrow>
          if c = CHR ''-'' then clusterLoop h toks i cs st
          else
            (case (case getArgOption opts [c] of
                     None \<Rightarrow> Ret (opts, err)
                   | Some k \<Rightarrow>
                       (case parseArgumentValue h ((opts ! k)\<lparr>tokenIndex := Some i\<rparr>) LitTrue err of
                          Throw e \<Rightarrow> Throw e
                        | Ret (a', err') \<Rightarrow> Ret (opts[k := a'], err'))) of
               Throw e \<Rightarrow> Throw e
             | Ret (opts1, err1) \<Rightarrow>
                 (case (if cs = [] then handleArg h toks i [c] (opts1, err1, deleteNext)
                        else
                          (case getArgOption opts [c] of
                             None \<Rightarrow>
                               Ret (opts1,
                                    err1\<lparr>message := Some (''Unexpected property "'' @ [c] @ ''"''),
                                         errTokenIndex := Some i\<rparr>,
                                    deleteNext)
                           | Some k \<Rightarrow>
                               if argType (opts1 ! k) \<noteq> TBoolean then
                                 Ret (opts1,
                                      err1\<lparr>message := Some (''Property "'' @ [c]
                                                @ ''" is not a boolean and must be assigned a value''),
                                           errTokenIndex := Some i\<rparr>,
                                      deleteNext)
                               else Ret (opts1, err1, deleteNext))) of
                    Throw e \<Rightarrow> Throw e
                  | Ret st2 \<Rightarrow>
                      if hasMessage (fst (snd st2)) then Ret (st2, True)
                      else clusterLoop h toks i cs st2)))\<close>

text \<open>
  One iteration of the loop over the tokens. The state of the pass is the options, the
  parsing error and \<^verbatim>\<open>deleteIndeces\<close>; \<open>Inl\<close> is \<^verbatim>\<open>return null\<close>, \<open>Inr\<close> goes on to the
  next token.
\<close>

type_synonym pass = "argOption list \<times> parsingError \<times> nat list"

definition namedToken ::
  "host \<Rightarrow> string list \<Rightarrow> nat \<Rightarrow> pass \<Rightarrow> (argOption list \<times> parsingError + pass) outcome" where
  "namedToken h toks i st =
     (case st of
        (opts, err, deleteIndeces) \<Rightarrow>
          (let currToken = toks ! i in
           if flagRegex currToken then
             (case (if startsWith currToken ''--''
                    then (case handleArg h toks i (drop 2 currToken) (opts, err, True) of
                            Throw e \<Rightarrow> Throw e | Ret st1 \<Rightarrow> Ret (st1, False))
                    else if length currToken = 2
                    then (case handleArg h toks i (drop 1 currToken) (opts, err, True) of
                            Throw e \<Rightarrow> Throw e | Ret st1 \<Rightarrow> Ret (st1, False))
                    else clusterLoop h toks i currToken (opts, err, True)) of
                Throw e \<Rightarrow> Throw e
              | Ret ((opts', err', deleteNext), returned) \<Rightarrow>
                  if returned then Ret (Inl (opts', err'))
                  else if hasMessage err' then Ret (Inl (opts', err'))
                  else Ret (Inr (opts', err',
                                 deleteIndeces @ [i] @ (if deleteNext then [i + 1] else []))))
           else if hasMessage err then Ret (Inl (opts, err))
           else Ret (Inr (opts, err, deleteIndeces))))"

function namedLoop ::
  "host \<Rightarrow> string list \<Rightarrow> nat \<Rightarrow> pass \<Rightarrow> (argOption list \<times> parsingError \<times> nat list option) outcome"
  where
  "namedLoop h toks i st =
     (if i < length toks then
        (case namedToken h toks i st of
           Throw e \<Rightarrow> Throw e
         | Ret (Inl (opts, err)) \<Rightarrow> Ret (opts, err, None)
         | Ret (Inr st') \<Rightarrow> namedLoop h toks (Suc i) st')
      else (case st of (opts, err, deleteIndeces) \<Rightarrow> Ret (opts, err, Some deleteIndeces)))"
  by pat_completeness auto
termination
  by (relation "measure (\<lambda>(h, toks, i, st). length toks - i)") auto

declare namedLoop.simps [simp del]

text \<open>\<^verbatim>\<open>parseNamedArgs\<close>: the delete list, or \<open>None\<close> for \<^verbatim>\<open>null\<close>.\<close>

definition parseNamedArgs ::
  "host \<Rightarrow> string list \<Rightarrow> argOption list \<Rightarrow> parsingError \<Rightarrow>
   (argOption list \<times> parsingError \<times> nat list option) outcome" where
  "parseNamedArgs h toks argOptions err = namedLoop h toks 0 (argOptions, err, [])"

subsection \<open>Resolving a token list against a command\<close>

text \<open>
  The \<^verbatim>\<open>args\<close> of a command: an ordered list of spec strings, or an object from spec
  string to description, given as its entries in key order.
\<close>

datatype argsDecl = ArgList "string list" | ArgObject "(string \<times> string) list"

record command =
  commandName :: string
  args :: argsDecl
  defaultValues :: "(string \<times> jsval) list"
  rawArgMode :: bool

text \<open>
  \<^verbatim>\<open>args.toString() == "[object Object]"\<close> holds for an object, and for the one array whose
  elements join to that text, of which \<^verbatim>\<open>Object.keys\<close> and \<^verbatim>\<open>Object.entries\<close> then give
  the indices.
\<close>

definition isObject :: "argsDecl \<Rightarrow> bool" where
  "isObject decl =
     (case decl of ArgObject _ \<Rightarrow> True | ArgList xs \<Rightarrow> join '','' xs = ''[object Object]'')"

definition entries :: "argsDecl \<Rightarrow> (string \<times> string) list" where
  "entries decl =
     (case decl of
        ArgObject kvs \<Rightarrow> kvs
      | ArgList xs \<Rightarrow> zip (map showNat [0..<length xs]) xs)"

definition argsArray :: "argsDecl \<Rightarrow> string list" where
  "argsArray decl =
     (if isObject decl then map fst (entries decl)
      else (case decl of ArgList xs \<Rightarrow> xs | ArgObject kvs \<Rightarrow> map fst kvs))"

text \<open>\<^verbatim>\<open>argsArray.map(this.parseArgOptions)\<close>: the first spec string that throws ends the call.\<close>

fun compileAll :: "host \<Rightarrow> string list \<Rightarrow> argOption list outcome" where
  "compileAll h [] = Ret []"
| "compileAll h (s # ss) =
     (case parseArgOptions h s of
        Throw e \<Rightarrow> Throw e
      | Ret a \<Rightarrow> (case compileAll h ss of Throw e \<Rightarrow> Throw e | Ret as \<Rightarrow> Ret (a # as)))"

text \<open>The default values: both assignments go through \<^verbatim>\<open>getArgOption\<close>, undefined for an unknown name.\<close>

fun applyDefaults :: "(string \<times> jsval) list \<Rightarrow> argOption list \<Rightarrow> argOption list outcome" where
  "applyDefaults [] opts = Ret opts"
| "applyDefaults ((nm, v) # ds) opts =
     (case getArgOption opts nm of
        None \<Rightarrow> Throw (TypeError ''Cannot set properties of undefined (setting 'default')'')
      | Some k \<Rightarrow> applyDefaults ds (opts[k := (opts ! k)\<lparr>defaultValue := v, argValue := v\<rparr>]))"

function replaceAll :: "string \<Rightarrow> string \<Rightarrow> string \<Rightarrow> string" where
  "replaceAll pat rep s =
     (if s = [] \<or> pat = [] then s
      else if startsWith s pat then rep @ replaceAll pat rep (drop (length pat) s)
      else hd s # replaceAll pat rep (tl s))"
  by pat_completeness auto
termination
  by (relation "measure (\<lambda>(pat, rep, s). length s)") auto

declare replaceAll.simps [simp del]

text \<open>The descriptions of an object declaration, entry \<open>i\<close> to option \<open>i\<close>.\<close>

fun describeAll :: "(string \<times> string) list \<Rightarrow> nat \<Rightarrow> argOption list \<Rightarrow> argOption list outcome" where
  "describeAll [] i opts = Ret opts"
| "describeAll ((arg, d) # es) i opts =
     (if i < length opts then
        (let a = (opts ! i)\<lparr>description := d\<rparr> in
         if argType a = TEnum then
           (case enumOptions a of
              None \<Rightarrow> Throw (TypeError ''Cannot read properties of undefined (reading 'join')'')
            | Some options \<Rightarrow>
                describeAll es (Suc i)
                  (opts[i := a\<lparr>description := replaceAll ''<enum>'' (join '' | '' options) d\<rparr>]))
         else describeAll es (Suc i) (opts[i := a]))
      else Throw (TypeError ''Cannot set properties of undefined (setting 'description')''))"

text \<open>
  The positional loop. The result carries whether the loop left \<^verbatim>\<open>parseArguments\<close>
  with a \<^verbatim>\<open>return\<close>.
\<close>

function positionalLoop ::
  "host \<Rightarrow> string list \<Rightarrow> nat list \<Rightarrow> nat \<Rightarrow> nat \<Rightarrow> argOption list \<Rightarrow> parsingError \<Rightarrow>
   (argOption list \<times> parsingError \<times> bool) outcome" where
  "positionalLoop h toks ignoreIndeces i argOptionIndex opts err =
     (if i < length toks then
        (if i \<in> set ignoreIndeces
         then positionalLoop h toks ignoreIndeces (Suc i) argOptionIndex opts err
         else if \<not> argOptionIndex < length opts
         then Ret (opts,
                   err\<lparr>message := Some ''Too many arguments'', errTokenIndex := Some i,
                       errTokenSpan := 99999\<rparr>,
                   True)
         else
           (let a = opts ! argOptionIndex;
                a1 = (if expanding a
                      then (if \<not> hasExpanded a
                            then a\<lparr>tokenIndex := Some i, tokenSpan := 0, hasExpanded := True\<rparr>
                            else a\<lparr>tokenSpan := tokenSpan a + 1\<rparr>)
                      else a\<lparr>tokenIndex := Some i\<rparr>);
                next = (if expanding a then argOptionIndex else Suc argOptionIndex)
            in case parseArgumentValue h a1 (Tok (toks ! i)) err of
                 Throw e \<Rightarrow> Throw e
               | Ret (a2, err2) \<Rightarrow>
                   if hasMessage err2 then Ret (opts[argOptionIndex := a2], err2, True)
                   else positionalLoop h toks ignoreIndeces (Suc i) next
                          (opts[argOptionIndex := a2]) err2))
      else Ret (opts, err, False))"
  by pat_completeness auto
termination
  by (relation "measure (\<lambda>(h, toks, ign, i, k, opts, err). length toks - i)") auto

declare positionalLoop.simps [simp del]

text \<open>The check for missing required arguments: the first one found sets the error.\<close>

fun missingArgument :: "argOption list \<Rightarrow> parsingError \<Rightarrow> parsingError" where
  "missingArgument [] err = err"
| \<open>missingArgument (a # as) err =
     (if \<not> optional a \<and> \<not> isManuallySetValue a
      then err\<lparr>message := Some (''argument "'' @ name a @ ''" ('' @ typeName a @ '') is missing''),
               errTokenIndex := Some 99999\<rparr>
      else missingArgument as err)\<close>

definition emptyParsingError :: parsingError where
  "emptyParsingError = \<lparr>message = None, errTokenIndex = None, errTokenSpan = 0\<rparr>"

text \<open>The part of \<^verbatim>\<open>parseArguments\<close> before the passes: the compiled options of the command.\<close>

definition compileCommand :: "host \<Rightarrow> command \<Rightarrow> argOption list outcome" where
  "compileCommand h cmd =
     (case compileAll h (argsArray (args cmd)) of
        Throw e \<Rightarrow> Throw e
      | Ret opts0 \<Rightarrow>
          (case applyDefaults (defaultValues cmd) opts0 of
             Throw e \<Rightarrow> Throw e
           | Ret opts1 \<Rightarrow>
               if isObject (args cmd) then describeAll (entries (args cmd)) 0 opts1
               else Ret opts1))"

text \<open>The two passes and the final check, on compiled options.\<close>

definition resolveTokens ::
  "host \<Rightarrow> string list \<Rightarrow> argOption list \<Rightarrow> (argOption list \<times> parsingError) outcome" where
  "resolveTokens h tempTokens argOptions =
     (case parseNamedArgs h tempTokens argOptions emptyParsingError of
        Throw e \<Rightarrow> Throw e
      | Ret (opts1, err1, ignoreIndeces) \<Rightarrow>
          if hasMessage err1 then Ret (opts1, err1)
          else
            (case ignoreIndeces of
               None \<Rightarrow> Throw (TypeError ''Cannot read properties of null (reading 'push')'')
             | Some deleteIndeces \<Rightarrow>
                 (case positionalLoop h tempTokens (deleteIndeces @ [0]) 0 0 opts1 err1 of
                    Throw e \<Rightarrow> Throw e
                  | Ret (opts2, err2, returned) \<Rightarrow>
                      if returned then Ret (opts2, err2)
                      else Ret (opts2, missingArgument opts2 err2))))"

definition parseArguments ::
  "host \<Rightarrow> string list \<Rightarrow> command \<Rightarrow> (argOption list \<times> parsingError) outcome" where
  "parseArguments h tempTokens cmd =
     (case compileCommand h cmd of
        Throw e \<Rightarrow> Throw e
      | Ret argOptions \<Rightarrow> resolveTokens h tempTokens argOptions)"

subsection \<open>Reading a result\<close>

text \<open>
  What the properties below read off a result of \<^verbatim>\<open>parseArguments\<close>: per option its name,
  its value and whether it was set, then the message and the token index of the error.
\<close>

definition resolved ::
  "(argOption list \<times> parsingError) outcome \<Rightarrow>
   ((string \<times> jsval \<times> bool) list \<times> string option \<times> nat option) outcome" where
  "resolved r =
     (case r of
        Throw e \<Rightarrow> Throw e
      | Ret (opts, err) \<Rightarrow>
          Ret (map (\<lambda>a. (name a, argValue a, isManuallySetValue a)) opts,
               message err, errTokenIndex err))"

text \<open>A command with the given spec strings and nothing else, as the default parameter of \<^verbatim>\<open>parseArguments\<close>.\<close>

definition commandOf :: "string list \<Rightarrow> command" where
  "commandOf specs = \<lparr>commandName = [], args = ArgList specs, defaultValues = [], rawArgMode = False\<rparr>"

text \<open>A host with no files and no commands, whose library functions give NaN: for closed examples.\<close>

definition bareHost :: host where
  "bareHost =
     \<lparr>hMath = (\<lambda>f n. NaN), hPow = (\<lambda>a b. NaN), hParseFloat = (\<lambda>s. NaN),
      hNumberToString = (\<lambda>r. []), hBigInt = (\<lambda>v. None),
      hFileExists = (\<lambda>v. Ret False), hCommandExists = (\<lambda>v. Ret False)\<rparr>"

text \<open>The options of a command after the named pass, as \<^verbatim>\<open>parseArguments\<close> computes them.\<close>

definition namedPass ::
  "host \<Rightarrow> string list \<Rightarrow> command \<Rightarrow>
   (argOption list \<times> parsingError \<times> nat list option) outcome" where
  "namedPass h tempTokens cmd =
     (case compileCommand h cmd of
        Throw e \<Rightarrow> Throw e
      | Ret argOptions \<Rightarrow> parseNamedArgs h tempTokens argOptions emptyParsingError)"

subsection \<open>Notions of the specification\<close>

text \<open>
  The type codes the specification lists, and the type code of a spec string: the text
  between the first and the second colon of the string without its prefixes.
\<close>

definition knownTypeCodes :: "string list" where
  "knownTypeCodes = [''n'', ''i'', ''bn'', ''b'', ''s'', ''t'', ''f'', ''c'', ''m'', ''sm'', ''e'']"

definition specName :: "string \<Rightarrow> string" where
  "specName argString = snd (snd (stripPrefixes argString))"

definition hasTypeCode :: "string \<Rightarrow> bool" where
  "hasTypeCode argString \<longleftrightarrow> CHR '':'' \<in> set (specName argString)"

definition typeCode :: "string \<Rightarrow> string" where
  "typeCode argString = split (CHR '':'') (specName argString) ! 1"






subsection \<open>The dispatcher\<close>

text \<open>
  What \<^verbatim>\<open>Command.run\<close> passes to the handler: the object of \<^verbatim>\<open>processArgs\<close>, the raw
  arguments of a raw-mode command, or the raw arguments and the tokens.
\<close>

datatype passing = Parsed "(string \<times> jsval) list" | Raw string | RawTokens string "string list"

text \<open>
  The calls of the dispatcher on the terminal and the console, in order. The whole of
  \<^verbatim>\<open>_printParserError\<close> is one call: it prints the usage and the parse error, under the
  category \<^verbatim>\<open>ParseError\<close>.
\<close>

datatype call =
    ExpectFinishCommand
  | FinishCommand
  | PrintError string string
  | ConsoleError exn
  | PrintParserError string "argOption list" string

fun assign :: "(string \<times> jsval) list \<Rightarrow> string \<Rightarrow> jsval \<Rightarrow> (string \<times> jsval) list" where
  "assign [] k v = [(k, v)]"
| "assign ((k', v') # kvs) k v =
     (if k' = k then (k', v) # kvs else (k', v') # assign kvs k v)"

definition valueObject :: "argOption list \<Rightarrow> (string \<times> jsval) list" where
  "valueObject opts =
     foldl (\<lambda>obj a. foldl (\<lambda>obj form. assign obj form (argValue a)) obj (forms a)) [] opts"

definition processArgs ::
  "host \<Rightarrow> command \<Rightarrow> string list \<Rightarrow> string \<Rightarrow> call list \<times> passing outcome" where
  "processArgs h cmd toks rawArgs =
     (if rawArgMode cmd then ([], Ret (Raw rawArgs))
      else
        (case parseArguments h toks cmd of
           Throw e \<Rightarrow> ([], Throw e)
         | Ret (opts, err) \<Rightarrow>
             (case message err of
                Some m \<Rightarrow>
                  if m \<noteq> []
                  then ([PrintParserError (commandName cmd) opts m], Throw (IntendedError []))
                  else ([], Ret (Parsed (valueObject opts)))
              | None \<Rightarrow> ([], Ret (Parsed (valueObject opts))))))"

text \<open>\<^verbatim>\<open>error instanceof IntendedError\<close>.\<close>

fun isIntended :: "exn \<Rightarrow> bool" where
  "isIntended (IntendedError _) = True"
| "isIntended _ = False"

text \<open>
  The \<^verbatim>\<open>try\<close> block up to the end of the handler. The handler is any function of the
  state of the world \<open>'w\<close> and of what it is passed, to a new state and what it threw,
  if anything (for an asynchronous handler, what the awaited promise rejected with).
  The result is the state, the calls made and what was thrown.
\<close>

definition attempt ::
  "host \<Rightarrow> command \<Rightarrow> ('w \<Rightarrow> passing \<Rightarrow> 'w \<times> exn option) \<Rightarrow> string list \<Rightarrow> string \<Rightarrow>
   bool \<Rightarrow> 'w \<Rightarrow> 'w \<times> call list \<times> exn option" where
  "attempt h cmd callback toks rawArgs doProcessArgs w =
     (case (if doProcessArgs then processArgs h cmd toks rawArgs
            else ([], Ret (RawTokens rawArgs toks))) of
        (cs, Throw e) \<Rightarrow> (w, cs, Some e)
      | (cs, Ret passingArguments) \<Rightarrow>
          (case callback w passingArguments of (w', thrown) \<Rightarrow> (w', cs, thrown)))"

text \<open>
  \<^verbatim>\<open>Command.run\<close>, on a command attached to a terminal whose own methods return: the
  state, the dispatcher's calls in order, and the value returned. \<open>activityDone\<close> reads
  \<^verbatim>\<open>tempActivityCallCount === tempMaxActivityCallCount\<close> off the state.
\<close>

definition run ::
  "host \<Rightarrow> command \<Rightarrow> ('w \<Rightarrow> passing \<Rightarrow> 'w \<times> exn option) \<Rightarrow> ('w \<Rightarrow> bool) \<Rightarrow>
   string list \<Rightarrow> string \<Rightarrow> bool \<Rightarrow> bool \<Rightarrow> 'w \<Rightarrow> 'w \<times> call list \<times> bool" where
  "run h cmd callback activityDone toks rawArgs callFinishFunc doProcessArgs w =
     (case attempt h cmd callback toks rawArgs doProcessArgs w of
        (w', cs, None) \<Rightarrow>
          (w',
           (if callFinishFunc then [ExpectFinishCommand] else []) @ cs
             @ (if callFinishFunc then [FinishCommand] else []),
           True)
      | (w', cs, Some e) \<Rightarrow>
          (w',
           (if callFinishFunc then [ExpectFinishCommand] else []) @ cs
             @ (if \<not> isIntended e then [PrintError (errorMessage e) (errorName e), ConsoleError e]
                else [])
             @ (if callFinishFunc then [FinishCommand] else []),
           activityDone w'))"

text \<open>A call that reports a defect: the two calls of the \<^verbatim>\<open>catch\<close> block.\<close>

fun defectReport :: "call \<Rightarrow> bool" where
  "defectReport (PrintError _ _) = True"
| "defectReport (ConsoleError _) = True"
| "defectReport _ = False"

section \<open>Properties\<close>

subsection \<open>Tokenizer\<close>

lemma tokenizeScan_append:
  "foldl tokenizeChar st (xs @ ys) = foldl tokenizeChar (foldl tokenizeChar st xs) ys"
  by simp

lemma tokenize_open_quote_rest:
  "activeApostrophe st = Some q \<Longrightarrow> q \<notin> set rest \<Longrightarrow>
   foldl tokenizeChar st rest = st\<lparr>tempToken := tempToken st @ rest\<rparr>"
proof (induction rest arbitrary: st)
  case Nil
  then show ?case by simp
next
  case (Cons c rest)
  from Cons.prems have step: "tokenizeChar st c = st\<lparr>tempToken := tempToken st @ [c]\<rparr>"
    by (auto simp: tokenizeChar_def)
  have "foldl tokenizeChar (st\<lparr>tempToken := tempToken st @ [c]\<rparr>) rest
        = (st\<lparr>tempToken := tempToken st @ [c]\<rparr>)\<lparr>tempToken := (tempToken st @ [c]) @ rest\<rparr>"
    using Cons.prems Cons.IH [of "st\<lparr>tempToken := tempToken st @ [c]\<rparr>"] by simp
  with step show ?case by simp
qed

lemma tokenize_unterminated:
  assumes q: "q \<in> set apostropheCharacters"
    and closed: "activeApostrophe (tokenizeScan pre) = None"
    and rest: "q \<notin> set rest"
  shows "tokenizeScan (pre @ q # rest) =
         (tokenizeScan pre)\<lparr>tempToken := tempToken (tokenizeScan pre) @ rest,
                             activeApostrophe := Some q\<rparr>"
proof -
  let ?st = "tokenizeScan pre"
  have opened: "tokenizeChar ?st q = ?st\<lparr>activeApostrophe := Some q\<rparr>"
    using q closed by (simp add: tokenizeChar_def)
  have "tokenizeScan (pre @ q # rest) = foldl tokenizeChar (tokenizeChar ?st q) rest"
    by (simp add: tokenizeScan_def)
  also have "\<dots> = (?st\<lparr>activeApostrophe := Some q\<rparr>)\<lparr>tempToken := tempToken ?st @ rest\<rparr>"
    using tokenize_open_quote_rest [of "?st\<lparr>activeApostrophe := Some q\<rparr>" q rest] rest opened
    by simp
  finally show ?thesis by simp
qed

lemmas tokenize_eval =
  tokenize_def tokenizeScan_def tokenizeChar_def tokenizeInit_def
  apostropheCharacters_def spaceCharacters_def

text \<open>
  C5 (as amended). \<^verbatim>\<open>tokenize('a "b c" d')\<close> is \<^verbatim>\<open>["a", "b c", "d"]\<close>, \<^verbatim>\<open>tokenize('')\<close>
  is \<^verbatim>\<open>[]\<close> and \<^verbatim>\<open>tokenize('a "b')\<close> is \<^verbatim>\<open>["a", "b"]\<close>. The function is total (no
  step of the loop can raise). Whenever a quote \<open>q\<close> is opened after a prefix \<open>pre\<close> and
  never closed in \<open>rest\<close>, the tokens of the prefix are kept and one final token is
  produced from the characters pending before the quote followed by all of \<open>rest\<close>,
  whitespace and the other quote character included, provided that token is not empty.
\<close>

theorem C5_tokenize:
  \<open>tokenize ''a "b c" d'' = [''a'', ''b c'', ''d''] \<and>
   tokenize [] = [] \<and>
   tokenize ''a "b'' = [''a'', ''b''] \<and>
   (\<forall>pre q rest.
      q \<in> set apostropheCharacters \<and> activeApostrophe (tokenizeScan pre) = None \<and>
      q \<notin> set rest \<and> tempToken (tokenizeScan pre) @ rest \<noteq> [] \<longrightarrow>
      tokenize (pre @ q # rest) =
        tokens (tokenizeScan pre) @ [tempToken (tokenizeScan pre) @ rest])\<close>
proof (intro conjI allI impI)
  show \<open>tokenize ''a "b c" d'' = [''a'', ''b c'', ''d'']\<close>
    by (simp add: tokenize_eval)
  show \<open>tokenize [] = []\<close>
    by (simp add: tokenize_eval)
  show \<open>tokenize ''a "b'' = [''a'', ''b'']\<close>
    by (simp add: tokenize_eval)
next
  fix pre q rest
  assume h: "q \<in> set apostropheCharacters \<and> activeApostrophe (tokenizeScan pre) = None \<and>
      q \<notin> set rest \<and> tempToken (tokenizeScan pre) @ rest \<noteq> []"
  then have "tokenizeScan (pre @ q # rest) =
         (tokenizeScan pre)\<lparr>tempToken := tempToken (tokenizeScan pre) @ rest,
                             activeApostrophe := Some q\<rparr>"
    using tokenize_unterminated by blast
  with h show "tokenize (pre @ q # rest) =
        tokens (tokenizeScan pre) @ [tempToken (tokenizeScan pre) @ rest]"
    by (simp add: tokenize_def)
qed

theorem C5_tokenize_witness:
  \<open>CHR ''"'' \<in> set apostropheCharacters \<and> activeApostrophe (tokenizeScan ''x y'') = None \<and>
   CHR ''"'' \<notin> set ''b c'' \<and> tempToken (tokenizeScan ''x y'') @ ''b c'' \<noteq> [] \<and>
   tokenize (''x y'' @ CHR ''"'' # ''b c'') = [''x'', ''yb c'']\<close>
  using C5_tokenize
  by (simp add: tokenize_eval)

text \<open>
  C5 as stated fails when nothing is pending and nothing follows the quote: the input
  consisting of one double quote leaves the quote open and yields no token at all.
\<close>

theorem C5_tokenize_counterexample:
  \<open>activeApostrophe (tokenizeScan ''"'') = Some (CHR ''"'') \<and> tokenize ''"'' = []\<close>
  by (simp add: tokenize_eval)

subsection \<open>Numeric expression evaluator\<close>
















subsection \<open>Evaluating the parser on a given input\<close>

lemmas compile_eval =
  commandOf_def compileCommand_def argsArray_def isObject_def entries_def
  parseArgOptions_def stripPrefixes_def startsWith_def applyTypeCode_def applyConstraint_def
  finishArgOptions_def initialArgOptions_def parseFloat_def plainDecimal_def intRegex_def
  decimalRegex_def dotted_def allIn_def unsignedDecimal_def parseInt_def Let_def

lemmas number_eval =
  parseNumber.simps constants_def startsWith_def allowedFunctions_def numberPart_def
  intRegex_def hexIntRegex_def binIntRegex_def decimalRegex_def binDecimalRegex_def
  hexDecimalRegex_def scientificRegex_def plainDecimal_def dotted_def allIn_def operators_def
  parseInt_def Let_def

lemmas value_eval =
  parseArgumentValue_def parseNumberArg_def outOfRange_def raiseError_def addVal_def atProperty_def
  isFinite_def isNaN_def isInteger_def num_gt_def numberToString_def showInt_def showNat.simps

lemmas pass_eval =
  resolveTokens_def parseNamedArgs_def namedLoop.simps namedToken_def flagRegex_def letters_def
  handleArg_def nextToken_def hasMessage_def emptyParsingError_def positionalLoop.simps

lemmas resolve_eval =
  resolved_def parseArguments_def namedPass_def compile_eval pass_eval value_eval number_eval

subsection \<open>Schema compiler\<close>

text \<open>
  The parts read by index exist: a split is never empty, and splitting at a character
  that occurs gives at least two parts.
\<close>

lemma split_nonempty: "split c s \<noteq> []"
  by (induction s) (auto split: list.splits)

lemma split_length: "c \<in> set s \<Longrightarrow> 2 \<le> length (split c s)"
proof (induction s)
  case Nil
  then show ?case by simp
next
  case (Cons x xs)
  show ?case
  proof (cases "x = c")
    case True
    with split_nonempty [of c xs] show ?thesis
      by (cases "split c xs") simp_all
  next
    case False
    with Cons show ?thesis
      by (auto split: list.splits)
  qed
qed

lemma applyTypeCode_None: "applyTypeCode t a = None \<longleftrightarrow> t \<notin> set knownTypeCodes"
  by (simp add: applyTypeCode_def knownTypeCodes_def)

lemma parseArgOptions_unknown:
  "hasTypeCode s \<Longrightarrow> typeCode s \<notin> set knownTypeCodes \<Longrightarrow>
   parseArgOptions h s = Throw (DeveloperError (''Invalid argument type: '' @ typeCode s))"
  using applyTypeCode_None [of "typeCode s"]
  by (auto simp: parseArgOptions_def hasTypeCode_def typeCode_def specName_def Let_def
      split: prod.splits)

lemma parseArgOptions_Throw:
  "parseArgOptions h s = Throw e \<Longrightarrow>
   hasTypeCode s \<and> typeCode s \<notin> set knownTypeCodes \<and>
   e = DeveloperError (''Invalid argument type: '' @ typeCode s)"
  using applyTypeCode_None [of "typeCode s"]
  by (auto simp: parseArgOptions_def hasTypeCode_def typeCode_def specName_def Let_def
      split: prod.splits if_splits option.splits)

lemma compileAll_Throw:
  "s \<in> set ss \<Longrightarrow> hasTypeCode s \<Longrightarrow> typeCode s \<notin> set knownTypeCodes \<Longrightarrow>
   \<exists>msg. compileAll h ss = Throw (DeveloperError msg)"
proof (induction ss)
  case Nil
  then show ?case by simp
next
  case (Cons x ss)
  show ?case
  proof (cases "parseArgOptions h x")
    case (Throw e)
    then show ?thesis using parseArgOptions_Throw [of h x e] by simp
  next
    case (Ret a)
    with Cons.prems parseArgOptions_unknown [of s h] have "s \<in> set ss" by auto
    with Cons have "\<exists>msg. compileAll h ss = Throw (DeveloperError msg)" by blast
    with Ret show ?thesis by auto
  qed
qed

lemma parseArguments_unknown:
  "s \<in> set (argsArray (args cmd)) \<Longrightarrow> hasTypeCode s \<Longrightarrow> typeCode s \<notin> set knownTypeCodes \<Longrightarrow>
   \<exists>msg. parseArguments h toks cmd = Throw (DeveloperError msg)"
  using compileAll_Throw [of s "argsArray (args cmd)" h]
  by (auto simp: parseArguments_def compileCommand_def)

subsection \<open>Named pass: steps on boolean flags\<close>




subsection \<open>Independence of the token at index 0\<close>

lemma nextToken_head: "0 < i \<Longrightarrow> nextToken (t # rest) i = nextToken (t' # rest) i"
  by (simp add: nextToken_def)

lemma handleArg_head:
  assumes "0 < i"
  shows "handleArg h (t # rest) i nm st = handleArg h (t' # rest) i nm st"
proof -
  have eq: "nextToken (t # rest) i = nextToken (t' # rest) i"
    using assms by (rule nextToken_head)
  show ?thesis unfolding handleArg_def eq ..
qed

lemma clusterLoop_head:
  assumes "0 < i"
  shows "clusterLoop h (t # rest) i cs st = clusterLoop h (t' # rest) i cs st"
proof (induction cs arbitrary: st)
  case Nil
  show ?case by simp
next
  case (Cons c cs)
  note hd = handleArg_head [OF assms, of h t rest _ _ t']
  show ?case unfolding clusterLoop.simps hd Cons.IH ..
qed

lemma namedToken_head:
  assumes "0 < i"
  shows "namedToken h (t # rest) i st = namedToken h (t' # rest) i st"
proof -
  have nth: "(t # rest) ! i = (t' # rest) ! i"
    using assms by (simp add: nth_Cons')
  note hd = handleArg_head [OF assms, of h t rest _ _ t']
    and cl = clusterLoop_head [OF assms, of h t rest _ _ t']
  show ?thesis unfolding namedToken_def nth hd cl ..
qed

lemma namedLoop_head:
  "0 < i \<Longrightarrow> namedLoop h (t # rest) i st = namedLoop h (t' # rest) i st"
proof (induction "length rest + 1 - i" arbitrary: i st)
  case 0
  then show ?case by (simp add: namedLoop.simps)
next
  case (Suc n)
  have step: "namedLoop h (t # rest) (Suc i) st' = namedLoop h (t' # rest) (Suc i) st'" for st'
    using Suc.hyps(1) [of "Suc i" st'] Suc.hyps(2) by simp
  have tok: "namedToken h (t # rest) i st = namedToken h (t' # rest) i st"
    using Suc.prems by (rule namedToken_head)
  show ?case
    by (subst (1 2) namedLoop.simps) (simp add: tok step split: outcome.splits sum.splits)
qed

lemma parseNamedArgs_head:
  assumes "\<not> flagRegex t" "\<not> flagRegex t'"
  shows "parseNamedArgs h (t # rest) opts emptyParsingError =
         parseNamedArgs h (t' # rest) opts emptyParsingError"
proof -
  have "namedToken h (t # rest) 0 (opts, emptyParsingError, []) = Ret (Inr (opts, emptyParsingError, []))"
    using assms by (simp add: namedToken_def hasMessage_def emptyParsingError_def)
  moreover
  have "namedToken h (t' # rest) 0 (opts, emptyParsingError, []) = Ret (Inr (opts, emptyParsingError, []))"
    using assms by (simp add: namedToken_def hasMessage_def emptyParsingError_def)
  ultimately show ?thesis
    unfolding parseNamedArgs_def
    by (subst (1 2) namedLoop.simps) (simp add: namedLoop_head [of "Suc 0" h t rest _ t'])
qed

lemma positionalLoop_head:
  "0 \<in> set ign \<Longrightarrow>
   positionalLoop h (t # rest) ign i k opts err = positionalLoop h (t' # rest) ign i k opts err"
proof (induction "length rest + 1 - i" arbitrary: i k opts err)
  case 0
  then show ?case by (simp add: positionalLoop.simps)
next
  case (Suc n)
  have step: "positionalLoop h (t # rest) ign (Suc i) k' opts' err' =
              positionalLoop h (t' # rest) ign (Suc i) k' opts' err'" for k' opts' err'
    using Suc.hyps(1) [of "Suc i" k' opts' err'] Suc.hyps(2) Suc.prems by simp
  show ?case
  proof (cases "i = 0")
    case True
    note step0 = step [unfolded True]
    from Suc.prems show ?thesis unfolding True
      by (subst (1 2) positionalLoop.simps) (simp add: step0)
  next
    case False
    then have nth: "(t # rest) ! i = (t' # rest) ! i" by (simp add: nth_Cons')
    show ?thesis
      apply (subst (1 2) positionalLoop.simps)
      apply (unfold nth step list.size)
      apply (rule refl)
      done
  qed
qed

lemma parseArguments_head:
  assumes "\<not> flagRegex t" "\<not> flagRegex t'"
  shows "parseArguments h (t # rest) cmd = parseArguments h (t' # rest) cmd"
proof -
  have eq: "resolveTokens h (t # rest) opts = resolveTokens h (t' # rest) opts" for opts
    unfolding resolveTokens_def parseNamedArgs_head [OF assms, of h rest opts]
    by (simp add: positionalLoop_head [of _ h t rest _ _ _ _ t']
             split: outcome.splits prod.splits option.splits)
  show ?thesis unfolding parseArguments_def eq ..
qed

subsection \<open>Named pass: steps on flags of required options\<close>


















subsection \<open>The resolver on the schema \<^verbatim>\<open>["a:n:1~100", "?b:b"]\<close>\<close>

text \<open>
  C1 (as amended). With the command token at index 0, the tokens \<^verbatim>\<open>["cmd", "50"]\<close> resolve
  without error to \<open>a = 50\<close>, \<open>b\<close> unset, and \<^verbatim>\<open>["cmd", "150"]\<close> fail the range check on
  \<open>a\<close> with the message that the number must be at most 100, at token 1.
\<close>

theorem C1_resolve_range:
  \<open>resolved (parseArguments h [''cmd'', ''50''] (commandOf [''a:n:1~100'', ''?b:b''])) =
     Ret ([(''a'', Num (Fin 50), True), (''b'', Undefined, False)], None, None) \<and>
   resolved (parseArguments h [''cmd'', ''150''] (commandOf [''a:n:1~100'', ''?b:b''])) =
     Ret ([(''a'', Undefined, False), (''b'', Undefined, False)],
          Some ''At property "a": Number must be at most 100'', Some 1)\<close>
  by (simp add: resolve_eval)

text \<open>
  C1 as stated fails: the token lists \<^verbatim>\<open>["50"]\<close> and \<^verbatim>\<open>["150"]\<close> hold nothing after
  index 0, so both end with \<open>a\<close> missing; the first does not succeed and the second
  never reaches the range check.
\<close>

theorem C1_resolve_range_counterexample:
  \<open>resolved (parseArguments bareHost [''50''] (commandOf [''a:n:1~100'', ''?b:b''])) =
     Ret ([(''a'', Undefined, False), (''b'', Undefined, False)],
          Some ''argument "a" (number) is missing'', Some 99999) \<and>
   resolved (parseArguments bareHost [''150''] (commandOf [''a:n:1~100'', ''?b:b''])) =
     Ret ([(''a'', Undefined, False), (''b'', Undefined, False)],
          Some ''argument "a" (number) is missing'', Some 99999)\<close>
  by (simp add: resolve_eval)

subsection \<open>Boolean flags\<close>



subsection \<open>Clusters of short flags\<close>

text \<open>
  C7, at the input where the code departs from it. In the cluster \<^verbatim>\<open>-nb\<close> the character
  \<open>n\<close> is not in last position and names a number option: the call throws a TypeError
  instead of setting the parse error that the same position gives for a string option,
  and a number option in last position with a value after the cluster throws as well.
\<close>

theorem C7_cluster_number_throws:
  \<open>resolved (parseArguments bareHost [''cmd'', ''-nb''] (commandOf [''?n:n'', ''?b:b''])) =
     Throw (TypeError ''numberString.startsWith is not a function'') \<and>
   resolved (parseArguments bareHost [''cmd'', ''-sb''] (commandOf [''?s:s'', ''?b:b''])) =
     Ret ([(''s'', Bool True, True), (''b'', Undefined, False)],
          Some ''Property "s" is not a boolean and must be assigned a value'', Some 1) \<and>
   resolved (parseArguments bareHost [''cmd'', ''-bn'', ''5''] (commandOf [''?n:n'', ''?b:b''])) =
     Throw (TypeError ''numberString.startsWith is not a function'')\<close>
  by (simp add: resolve_eval)

subsection \<open>Unknown type codes\<close>

text \<open>
  C8. A spec string with a type code that is not one of the known codes makes
  \<^verbatim>\<open>parseArgOptions\<close> throw a DeveloperError naming the code; that is the only way it
  throws; and \<^verbatim>\<open>parseArguments\<close> on a command that declares such a spec string throws a
  DeveloperError for every token list, before it reads a token.
\<close>

theorem C8_unknown_type_code:
  "(\<forall>s. hasTypeCode s \<and> typeCode s \<notin> set knownTypeCodes \<longrightarrow>
      parseArgOptions h s = Throw (DeveloperError (''Invalid argument type: '' @ typeCode s))) \<and>
   (\<forall>s e. parseArgOptions h s = Throw e \<longrightarrow>
      hasTypeCode s \<and> typeCode s \<notin> set knownTypeCodes \<and>
      e = DeveloperError (''Invalid argument type: '' @ typeCode s)) \<and>
   (\<forall>s cmd toks. s \<in> set (argsArray (args cmd)) \<and> hasTypeCode s \<and>
      typeCode s \<notin> set knownTypeCodes \<longrightarrow>
      (\<exists>msg. parseArguments h toks cmd = Throw (DeveloperError msg)))"
  using parseArgOptions_unknown parseArgOptions_Throw parseArguments_unknown
  by blast

theorem C8_unknown_type_code_witness:
  "hasTypeCode ''?count:x:1~5'' \<and> typeCode ''?count:x:1~5'' = ''x'' \<and>
   ''x'' \<notin> set knownTypeCodes \<and>
   parseArgOptions bareHost ''?count:x:1~5'' = Throw (DeveloperError ''Invalid argument type: x'')"
proof -
  have a: "hasTypeCode ''?count:x:1~5''"
    by (simp add: hasTypeCode_def specName_def stripPrefixes_def startsWith_def)
  have b: "typeCode ''?count:x:1~5'' = ''x''"
    by (simp add: typeCode_def specName_def stripPrefixes_def startsWith_def)
  have c: "''x'' \<notin> set knownTypeCodes"
    by (simp add: knownTypeCodes_def)
  from a b c have "hasTypeCode ''?count:x:1~5'' \<and> typeCode ''?count:x:1~5'' \<notin> set knownTypeCodes"
    by (simp only: simp_thms)
  from C8_unknown_type_code [of bareHost, THEN conjunct1, rule_format, OF this]
  have "parseArgOptions bareHost ''?count:x:1~5'' = Throw (DeveloperError ''Invalid argument type: x'')"
    by (simp only: b append.simps)
  with a b c show ?thesis by (intro conjI)
qed

subsection \<open>The command token\<close>

text \<open>
  C10. \<^verbatim>\<open>parseArguments\<close> never reads the text of the token at index 0 as a value: the
  positional loop runs with 0 in its ignore list and gives the same result whatever that
  token is, and so does the whole call for any two tokens at index 0 that are not in
  flag syntax (the named pass matches every token against the flag pattern, index 0
  included). With the schema \<^verbatim>\<open>["a:n"]\<close>, \<^verbatim>\<open>["50"]\<close> ends with \<open>a\<close> missing and
  \<^verbatim>\<open>["cmd", "50"]\<close> assigns \<open>a = 50\<close>.
\<close>

theorem C10_index_zero:
  \<open>(\<forall>t t' rest cmd. \<not> flagRegex t \<and> \<not> flagRegex t' \<longrightarrow>
      parseArguments h (t # rest) cmd = parseArguments h (t' # rest) cmd) \<and>
   (\<forall>t t' rest deleteIndeces i k opts err.
      positionalLoop h (t # rest) (deleteIndeces @ [0]) i k opts err =
      positionalLoop h (t' # rest) (deleteIndeces @ [0]) i k opts err) \<and>
   resolved (parseArguments h [''50''] (commandOf [''a:n''])) =
     Ret ([(''a'', Undefined, False)], Some ''argument "a" (number) is missing'', Some 99999) \<and>
   resolved (parseArguments h [''cmd'', ''50''] (commandOf [''a:n''])) =
     Ret ([(''a'', Num (Fin 50), True)], None, None)\<close>
proof (intro conjI allI impI)
  fix t t' rest cmd assume "\<not> flagRegex t \<and> \<not> flagRegex t'"
  then show "parseArguments h (t # rest) cmd = parseArguments h (t' # rest) cmd"
    using parseArguments_head by blast
next
  fix t t' rest deleteIndeces i k opts err
  show "positionalLoop h (t # rest) (deleteIndeces @ [0]) i k opts err =
        positionalLoop h (t' # rest) (deleteIndeces @ [0]) i k opts err"
    by (rule positionalLoop_head) simp
next
  show \<open>resolved (parseArguments h [''50''] (commandOf [''a:n''])) =
     Ret ([(''a'', Undefined, False)], Some ''argument "a" (number) is missing'', Some 99999)\<close>
    by (simp add: resolve_eval)
  show "resolved (parseArguments h [''cmd'', ''50''] (commandOf [''a:n''])) =
     Ret ([(''a'', Num (Fin 50), True)], None, None)"
    by (simp add: resolve_eval)
qed

theorem C10_index_zero_witness:
  "\<not> flagRegex ''cmd'' \<and> \<not> flagRegex ''50'' \<and>
   resolved (parseArguments bareHost [''50'', ''50''] (commandOf [''a:n''])) =
     Ret ([(''a'', Num (Fin 50), True)], None, None)"
proof -
  have a: "\<not> flagRegex ''cmd''" and b: "\<not> flagRegex ''50''"
    by (simp_all add: flagRegex_def)
  from a b have ab: "\<not> flagRegex ''50'' \<and> \<not> flagRegex ''cmd''" by (intro conjI)
  have "parseArguments bareHost (''50'' # [''50'']) (commandOf [''a:n'']) =
        parseArguments bareHost (''cmd'' # [''50'']) (commandOf [''a:n''])"
    by (rule C10_index_zero [of bareHost, THEN conjunct1, rule_format, OF ab])
  moreover have "resolved (parseArguments bareHost (''cmd'' # [''50'']) (commandOf [''a:n''])) =
     Ret ([(''a'', Num (Fin 50), True)], None, None)"
    by (simp add: resolve_eval)
  ultimately have "resolved (parseArguments bareHost [''50'', ''50''] (commandOf [''a:n''])) =
     Ret ([(''a'', Num (Fin 50), True)], None, None)"
    by (simp only:)
  with a b show ?thesis by (intro conjI)
qed

subsection \<open>Flags of required options\<close>



subsection \<open>The dispatcher\<close>

lemma processArgs_failure:
  assumes "\<not> rawArgMode cmd" and "parseArguments h toks cmd = Ret (opts, err)"
    and "message err = Some m" and "m \<noteq> []"
  shows "attempt h cmd callback toks rawArgs True w =
         (w, [PrintParserError (commandName cmd) opts m], Some (IntendedError []))"
  using assms by (simp add: attempt_def processArgs_def)

lemma attempt_calls:
  "attempt h cmd callback toks rawArgs doProcessArgs w = (w', cs, thrown) \<Longrightarrow>
   \<forall>c \<in> set cs. c \<noteq> FinishCommand \<and> \<not> defectReport c"
  by (auto simp: attempt_def processArgs_def
      split: if_splits outcome.splits prod.splits option.splits)

text \<open>
  C9. Every run that asks for the completion callback calls \<^verbatim>\<open>finishCommand\<close> exactly
  once, as its last call, whatever the handler does and whether or not argument parsing
  fails or throws, and a run that does not ask for it never calls it. A parse error
  aborts the run with an IntendedError before the handler is called; when what was
  thrown is an IntendedError the run makes neither of the two calls that report a
  defect, and for anything else thrown it makes both, with its message and name.
\<close>

theorem C9_finish_once:
  "(case run h cmd callback activityDone toks rawArgs True doProcessArgs w of
      (w', cs, res) \<Rightarrow> count_list cs FinishCommand = 1 \<and> last cs = FinishCommand) \<and>
   (case run h cmd callback activityDone toks rawArgs False doProcessArgs w of
      (w', cs, res) \<Rightarrow> count_list cs FinishCommand = 0) \<and>
   (\<forall>opts err m. \<not> rawArgMode cmd \<and> parseArguments h toks cmd = Ret (opts, err) \<and>
      message err = Some m \<and> m \<noteq> [] \<longrightarrow>
      attempt h cmd callback toks rawArgs True w =
        (w, [PrintParserError (commandName cmd) opts m], Some (IntendedError []))) \<and>
   (\<forall>w' cs e. attempt h cmd callback toks rawArgs doProcessArgs w = (w', cs, Some e) \<and> isIntended e \<longrightarrow>
      (case run h cmd callback activityDone toks rawArgs callFinishFunc doProcessArgs w of
         (w'', cs', res) \<Rightarrow> \<forall>c \<in> set cs'. \<not> defectReport c)) \<and>
   (\<forall>w' cs e. attempt h cmd callback toks rawArgs doProcessArgs w = (w', cs, Some e) \<and> \<not> isIntended e \<longrightarrow>
      (case run h cmd callback activityDone toks rawArgs callFinishFunc doProcessArgs w of
         (w'', cs', res) \<Rightarrow>
           PrintError (errorMessage e) (errorName e) \<in> set cs' \<and> ConsoleError e \<in> set cs'))"
proof -
  obtain w1 cs1 thrown where att: "attempt h cmd callback toks rawArgs doProcessArgs w = (w1, cs1, thrown)"
    by (cases "attempt h cmd callback toks rawArgs doProcessArgs w") auto
  from attempt_calls [OF att]
  have nofin: "count_list cs1 FinishCommand = 0" and nodef: "\<forall>c \<in> set cs1. \<not> defectReport c"
    by (auto simp: count_list_0_iff)
  have a: "case run h cmd callback activityDone toks rawArgs True doProcessArgs w of
      (w', cs, res) \<Rightarrow> count_list cs FinishCommand = 1 \<and> last cs = FinishCommand"
    using att nofin by (cases thrown) (simp_all add: run_def)
  have b: "case run h cmd callback activityDone toks rawArgs False doProcessArgs w of
      (w', cs, res) \<Rightarrow> count_list cs FinishCommand = 0"
    using att nofin by (cases thrown) (simp_all add: run_def)
  have c: "\<forall>opts err m. \<not> rawArgMode cmd \<and> parseArguments h toks cmd = Ret (opts, err) \<and>
      message err = Some m \<and> m \<noteq> [] \<longrightarrow>
      attempt h cmd callback toks rawArgs True w =
        (w, [PrintParserError (commandName cmd) opts m], Some (IntendedError []))"
  proof (intro allI impI)
    fix opts err m
    assume "\<not> rawArgMode cmd \<and> parseArguments h toks cmd = Ret (opts, err) \<and>
      message err = Some m \<and> m \<noteq> []"
    then have 1: "\<not> rawArgMode cmd" and 2: "parseArguments h toks cmd = Ret (opts, err)"
      and 3: "message err = Some m" and 4: "m \<noteq> []"
      by simp_all
    show "attempt h cmd callback toks rawArgs True w =
        (w, [PrintParserError (commandName cmd) opts m], Some (IntendedError []))"
      by (rule processArgs_failure [OF 1 2 3 4])
  qed
  have d: "\<forall>w' cs e. attempt h cmd callback toks rawArgs doProcessArgs w = (w', cs, Some e) \<and> isIntended e \<longrightarrow>
      (case run h cmd callback activityDone toks rawArgs callFinishFunc doProcessArgs w of
         (w'', cs', res) \<Rightarrow> \<forall>c \<in> set cs'. \<not> defectReport c)"
    using att nodef by (auto simp: run_def)
  have e: "\<forall>w' cs e. attempt h cmd callback toks rawArgs doProcessArgs w = (w', cs, Some e) \<and> \<not> isIntended e \<longrightarrow>
      (case run h cmd callback activityDone toks rawArgs callFinishFunc doProcessArgs w of
         (w'', cs', res) \<Rightarrow>
           PrintError (errorMessage e) (errorName e) \<in> set cs' \<and> ConsoleError e \<in> set cs')"
    using att by (auto simp: run_def)
  from a b c d e show ?thesis by (intro conjI)
qed

theorem C9_finish_once_witness:
  "\<not> rawArgMode (commandOf [''a:n'']) \<and>
   snd (snd (attempt bareHost (commandOf [''a:n'']) (\<lambda>w p. (w, None)) [''cmd''] [] True ())) =
     Some (IntendedError []) \<and>
   isIntended (IntendedError []) \<and>
   (case run bareHost (commandOf [''a:n'']) (\<lambda>w p. (w, None)) (\<lambda>w. False) [''cmd''] [] True True () of
      (w'', cs', res) \<Rightarrow> \<forall>c \<in> set cs'. \<not> defectReport c) \<and>
   attempt bareHost (commandOf []) (\<lambda>w p. (w, Some (OtherError ''Error'' ''boom''))) [''cmd''] [] False ()
     = ((), [], Some (OtherError ''Error'' ''boom'')) \<and>
   \<not> isIntended (OtherError ''Error'' ''boom'') \<and>
   (case run bareHost (commandOf []) (\<lambda>w p. (w, Some (OtherError ''Error'' ''boom''))) (\<lambda>w. False)
           [''cmd''] [] True False () of
      (w'', cs', res) \<Rightarrow>
        PrintError ''boom'' ''Error'' \<in> set cs' \<and> ConsoleError (OtherError ''Error'' ''boom'') \<in> set cs')"
proof -
  let ?cmd = "commandOf [''a:n'']"
  let ?ok = "\<lambda>(w::unit) (p::passing). (w, None :: exn option)"
  let ?bad = "\<lambda>(w::unit) (p::passing). (w, Some (OtherError ''Error'' ''boom''))"
  have raw: "\<not> rawArgMode ?cmd" by (simp add: commandOf_def)
  obtain opts err m where parse: "parseArguments bareHost [''cmd''] ?cmd = Ret (opts, err)"
    and msg: "message err = Some m" and nonempty: "m \<noteq> []"
  proof -
    have "\<exists>opts err m. parseArguments bareHost [''cmd''] ?cmd = Ret (opts, err) \<and>
            message err = Some m \<and> m \<noteq> []"
      by (simp add: parseArguments_def compile_eval pass_eval value_eval number_eval)
    then show ?thesis using that by blast
  qed
  from raw parse msg nonempty
  have hyp: "\<not> rawArgMode ?cmd \<and> parseArguments bareHost [''cmd''] ?cmd = Ret (opts, err) \<and>
             message err = Some m \<and> m \<noteq> []"
    by (intro conjI)
  note C9 = C9_finish_once [of bareHost ?cmd ?ok "\<lambda>w. False" "[''cmd'']" "[]" True "()" True]
  have att: "attempt bareHost ?cmd ?ok [''cmd''] [] True () =
        ((), [PrintParserError (commandName ?cmd) opts m], Some (IntendedError []))"
    by (rule C9 [THEN conjunct2, THEN conjunct2, THEN conjunct1, rule_format, OF hyp])
  then have thrown: "snd (snd (attempt bareHost ?cmd ?ok [''cmd''] [] True ())) = Some (IntendedError [])"
    by simp
  have int: "isIntended (IntendedError [])" by simp
  from att int
  have hyp2: "attempt bareHost ?cmd ?ok [''cmd''] [] True () =
        ((), [PrintParserError (commandName ?cmd) opts m], Some (IntendedError []))
        \<and> isIntended (IntendedError [])"
    by (intro conjI)
  have quiet: "case run bareHost ?cmd ?ok (\<lambda>w. False) [''cmd''] [] True True () of
      (w'', cs', res) \<Rightarrow> \<forall>c \<in> set cs'. \<not> defectReport c"
    by (rule C9 [THEN conjunct2, THEN conjunct2, THEN conjunct2, THEN conjunct1, rule_format, OF hyp2])
  note C9' = C9_finish_once [of bareHost "commandOf []" ?bad "\<lambda>w. False" "[''cmd'']" "[]" False "()" True]
  have att': "attempt bareHost (commandOf []) ?bad [''cmd''] [] False () =
        ((), [], Some (OtherError ''Error'' ''boom''))"
    by (simp add: attempt_def)
  have nint: "\<not> isIntended (OtherError ''Error'' ''boom'')" by simp
  from att' nint
  have hyp3: "attempt bareHost (commandOf []) ?bad [''cmd''] [] False () =
        ((), [], Some (OtherError ''Error'' ''boom'')) \<and> \<not> isIntended (OtherError ''Error'' ''boom'')"
    by (intro conjI)
  have "case run bareHost (commandOf []) ?bad (\<lambda>w. False) [''cmd''] [] True False () of
      (w'', cs', res) \<Rightarrow>
        PrintError (errorMessage (OtherError ''Error'' ''boom'')) (errorName (OtherError ''Error'' ''boom''))
          \<in> set cs' \<and> ConsoleError (OtherError ''Error'' ''boom'') \<in> set cs'"
    by (rule C9' [THEN conjunct2, THEN conjunct2, THEN conjunct2, THEN conjunct2, rule_format, OF hyp3])
  then have loud: "case run bareHost (commandOf []) ?bad (\<lambda>w. False) [''cmd''] [] True False () of
      (w'', cs', res) \<Rightarrow>
        PrintError ''boom'' ''Error'' \<in> set cs' \<and> ConsoleError (OtherError ''Error'' ''boom'') \<in> set cs'"
    by simp
  from raw thrown int quiet att' nint loud show ?thesis by (intro conjI)
qed

end
